theory Spec2Isabelle
  imports Complex_Main
begin

section \<open>Data model of the inventory controller\<close>

text \<open>
  The development embeds \<^verbatim>\<open>src/core/server/views/inventory.ts\<close>: the class
  \<^verbatim>\<open>InventoryController\<close>, its rule table \<^verbatim>\<open>ITEM_RULES\<close>, the array
  \<^verbatim>\<open>GROUND_ITEMS\<close> and the adapter table \<^verbatim>\<open>DataHelpers\<close>.

  A JavaScript number that the code only uses as a slot index or a count is an \<open>int\<close>;
  where the code tests \<^verbatim>\<open>isNaN\<close>, or where a parse may fail, the value is an
  \<open>int option\<close> and \<open>None\<close> is \<^verbatim>\<open>NaN\<close>. World coordinates are reals.
\<close>

type_synonym num = "int option"

text \<open>
  Modelled from the spec: the enum \<^verbatim>\<open>ITEM_TYPE\<close> (shared/enums/itemTypes) and
  \<^verbatim>\<open>isFlagEnabled\<close> (shared/utility/flags) are imported by the source file only.
  The spec calls \<^verbatim>\<open>behavior\<close> a "bitset describing capabilities (consumable, droppable,
  destroyed-on-drop, is-equipment, skip-consume-on-use)": a set of flags, and
  \<^verbatim>\<open>isFlagEnabled\<close> is membership. Only the five flags the controller tests are listed.
\<close>

datatype ITEM_TYPE = CAN_DROP | IS_EQUIPMENT | DESTROY_ON_DROP | CONSUMABLE | SKIP_CONSUMABLE

definition isFlagEnabled :: "ITEM_TYPE set \<Rightarrow> ITEM_TYPE \<Rightarrow> bool" where
  "isFlagEnabled flags flagToCheck = (flagToCheck \<in> flags)"

text \<open>
  The interface \<^verbatim>\<open>Item\<close> with the fields the controller reads: \<^verbatim>\<open>name\<close>,
  \<^verbatim>\<open>slot\<close>, \<^verbatim>\<open>quantity\<close>, \<^verbatim>\<open>behavior\<close>, \<^verbatim>\<open>equipment\<close>,
  \<^verbatim>\<open>hash\<close>, \<^verbatim>\<open>model\<close>, \<^verbatim>\<open>data.sex\<close> and \<^verbatim>\<open>data.event\<close>.
  An absent (undefined or null) field is \<open>None\<close>.
\<close>

record Item =
  itemName :: string
  slot :: int
  quantity :: int
  behavior :: "ITEM_TYPE set"
  equipment :: "int option"
  hash :: "string option"
  model :: "string option"
  data_sex :: "int option"
  data_event :: "string option"

record Vector3 =
  vec_x :: real
  vec_y :: real
  vec_z :: real

record DroppedItem =
  gridSpace :: int
  item :: Item
  position :: Vector3
  dimension :: int

datatype INVENTORY_TYPE = INVENTORY | EQUIPMENT | TOOLBAR | GROUND

datatype INVENTORY_RULES =
    FROM_EQUIPMENT_TO_INVENTORY
  | FROM_EQUIPMENT_TO_TOOLBAR
  | FROM_INVENTORY_TO_EQUIPMENT
  | FROM_INVENTORY_TO_GROUND
  | FROM_INVENTORY_TO_TOOLBAR
  | FROM_TOOLBAR_TO_EQUIPMENT
  | FROM_TOOLBAR_TO_INVENTORY
  | FROM_EQUIPMENT_TO_GROUND
  | FROM_TOOLBAR_TO_GROUND
  | FROM_GROUND_TO_INVENTORY
  | FROM_GROUND_TO_EQUIPMENT
  | FROM_GROUND_TO_TOOLBAR

text \<open>
  The part of \<^verbatim>\<open>alt.Player\<close> the controller touches. \<open>valid\<close> is \<^verbatim>\<open>player.valid\<close> and
  \<open>hasData\<close> says that \<^verbatim>\<open>player.data\<close> is defined: the guard
  \<^verbatim>\<open>!player || !player.valid || !player.data\<close> of \<^verbatim>\<open>processItemMovement\<close> fires unless
  both hold. Without data a read of \<^verbatim>\<open>player.data.inventory\<close> throws, and the container
  fields below are not read. The three owned containers are arrays of nullable items,
  searched by the items' \<^verbatim>\<open>slot\<close> field.
\<close>

record Player =
  valid :: bool
  hasData :: bool
  vehicle :: bool
  pos :: Vector3
  appearance_sex :: int
  player_gridSpace :: int
  player_dimension :: int
  data_inventory :: "Item option list"
  data_equipment :: "Item option list"
  data_toolbar :: "Item option list"

record World =
  player :: Player
  GROUND_ITEMS :: "DroppedItem list"

section \<open>Rule registry\<close>

text \<open>
  A rule callback receives the item, the two slot numbers and the rule's name. The item is
  whatever \<^verbatim>\<open>getItem\<close> returned, so it may be \<^verbatim>\<open>undefined\<close> (\<open>None\<close>).
  Callbacks are modelled as functions of their arguments: the \<^verbatim>\<open>await\<close> is not modelled.
\<close>

type_synonym rule_callback = "Item option \<Rightarrow> num \<Rightarrow> num \<Rightarrow> INVENTORY_RULES \<Rightarrow> bool"

type_synonym rule_table = "INVENTORY_RULES \<Rightarrow> rule_callback list"

text \<open>The initial table \<^verbatim>\<open>ITEM_RULES\<close>: every one of the twelve keys has an empty array.\<close>

definition ITEM_RULES :: rule_table where
  "ITEM_RULES = (\<lambda>rule. [])"

text \<open>
  \<^verbatim>\<open>addRule\<close>. The parameter is typed by the enum, whose twelve members are all keys of
  the table, each bound to an array (truthy even when empty); \<open>None\<close> stands for a string
  that is no key of the table, for which \<^verbatim>\<open>!ITEM_RULES[rule]\<close> holds.
\<close>

definition addRule ::
  "INVENTORY_RULES option \<Rightarrow> rule_callback \<Rightarrow> rule_table \<Rightarrow> bool \<times> rule_table" where
  "addRule rule callback rules =
     (case rule of
        None \<Rightarrow> (False, rules)
      | Some r \<Rightarrow> (True, rules(r := rules r @ [callback])))"

text \<open>
  The \<^verbatim>\<open>for\<close> loop of \<^verbatim>\<open>verifyRules\<close>, with its index \<open>i\<close>. Besides the verdict
  the model returns the indices of the callbacks it has invoked, in the order of the calls.
\<close>

function verifyRules_loop ::
  "rule_callback list \<Rightarrow> INVENTORY_RULES \<Rightarrow> Item option \<Rightarrow> num \<Rightarrow> num \<Rightarrow> nat \<Rightarrow> nat list
     \<Rightarrow> bool \<times> nat list" where
  "verifyRules_loop callbacks rule it selectedSlot endSlot i invoked =
     (if i < length callbacks then
        (let didPass = (callbacks ! i) it selectedSlot endSlot rule in
         if didPass then
           verifyRules_loop callbacks rule it selectedSlot endSlot (Suc i) (invoked @ [i])
         else (False, invoked @ [i]))
      else (True, invoked))"
  by pat_completeness auto
termination
  by (relation "measure (\<lambda>(callbacks, rule, it, selectedSlot, endSlot, i, invoked).
        length callbacks - i)") auto

declare verifyRules_loop.simps [simp del]

definition verifyRules ::
  "rule_table \<Rightarrow> INVENTORY_RULES \<Rightarrow> Item option \<Rightarrow> num \<Rightarrow> num \<Rightarrow> bool \<times> nat list" where
  "verifyRules rules rule it selectedSlot endSlot =
     (if length (rules rule) \<le> 0 then (True, [])
      else verifyRules_loop (rules rule) rule it selectedSlot endSlot 0 [])"


section \<open>Slot identifiers\<close>

text \<open>\<^verbatim>\<open>String.prototype.includes\<close>: the second string occurs in the first one.\<close>

fun startsWith :: "string \<Rightarrow> string \<Rightarrow> bool" where
  "startsWith s [] = True"
| "startsWith [] (c # cs) = False"
| "startsWith (a # rest) (c # cs) = (a = c \<and> startsWith rest cs)"

fun includesStr :: "string \<Rightarrow> string \<Rightarrow> bool" where
  "includesStr [] sub = (sub = [])"
| "includesStr (a # rest) sub = (startsWith (a # rest) sub \<or> includesStr rest sub)"

text \<open>
  Modelled from the spec: the enum \<^verbatim>\<open>SLOT_TYPE\<close> (shared/enums/inventorySlotTypes) is
  imported only. A slot identifier is "a container-kind prefix and a numeric index (e.g.
  prefix \<^verbatim>\<open>i\<close> = Personal Storage)"; the source's header comment lists the letters i, e, g, t
  and its literals are \<^verbatim>\<open>'i-'\<close>, \<^verbatim>\<open>'e-'\<close> and \<^verbatim>\<open>'t-'\<close>.
\<close>

definition SLOT_TYPE_INVENTORY :: string where "SLOT_TYPE_INVENTORY = ''i-''"
definition SLOT_TYPE_EQUIPMENT :: string where "SLOT_TYPE_EQUIPMENT = ''e-''"
definition SLOT_TYPE_TOOLBAR :: string where "SLOT_TYPE_TOOLBAR = ''t-''"
definition SLOT_TYPE_GROUND :: string where "SLOT_TYPE_GROUND = ''g-''"

text \<open>
  Modelled from the spec: \<^verbatim>\<open>stripCategory\<close> (server/utility/category) is imported only.
  "Parsing a slot identifier into (kind, index) is a pure function and must reject malformed
  identifiers (non-numeric index)": the index is what follows the last dash, it is read as
  a decimal number, and anything else gives \<^verbatim>\<open>NaN\<close>.
\<close>

fun afterLastDash :: "string \<Rightarrow> string" where
  "afterLastDash [] = []"
| "afterLastDash (c # cs) =
     (if CHR ''-'' \<in> set cs then afterLastDash cs
      else if c = CHR ''-'' then cs else c # cs)"

definition digitValue :: "char \<Rightarrow> int option" where
  "digitValue c = map_of (zip ''0123456789'' [0, 1, 2, 3, 4, 5, 6, 7, 8, 9]) c"

fun parseDigits :: "string \<Rightarrow> int \<Rightarrow> int option" where
  "parseDigits [] acc = Some acc"
| "parseDigits (c # cs) acc =
     (case digitValue c of None \<Rightarrow> None | Some d \<Rightarrow> parseDigits cs (10 * acc + d))"

definition stripCategory :: "string \<Rightarrow> num" where
  "stripCategory v = (let t = afterLastDash v in if t = [] then None else parseDigits t 0)"

section \<open>Container adapters\<close>

text \<open>\<^verbatim>\<open>(i) => i && i.slot === s\<close>: the entry is an item whose slot is \<open>s\<close>.\<close>

definition holdsSlot :: "num \<Rightarrow> Item option \<Rightarrow> bool" where
  "holdsSlot s e = (case e of None \<Rightarrow> False | Some i \<Rightarrow> Some (slot i) = s)"

text \<open>\<^verbatim>\<open>Array.prototype.findIndex\<close>; \<open>None\<close> is the result \<open>-1\<close>.\<close>

fun findIndex :: "('a \<Rightarrow> bool) \<Rightarrow> 'a list \<Rightarrow> nat option" where
  "findIndex P [] = None"
| "findIndex P (e # es) = (if P e then Some 0 else map_option Suc (findIndex P es))"

text \<open>
  Modelled from the spec: the functions of \<^verbatim>\<open>playerFuncs.inventory\<close>
  (server/extensions/Player) are imported only. The spec gives their contract (section 4.1):
  \<^verbatim>\<open>isSlotFree\<close>; \<^verbatim>\<open>readItem\<close>, the item or absent; \<^verbatim>\<open>removeItem\<close>, "true iff an
  item was present and removed"; \<^verbatim>\<open>insertItem\<close>, "false iff the slot was occupied or
  otherwise rejected", where a slot that is no number or lies outside the container's
  bounded capacity is rejected, and the inserted item takes the slot it is put in.
\<close>

definition isSlotFree :: "Item option list \<Rightarrow> num \<Rightarrow> bool" where
  "isSlotFree c s = (find (holdsSlot s) c = None)"

definition readItem :: "Item option list \<Rightarrow> num \<Rightarrow> Item option" where
  "readItem c s = (case find (holdsSlot s) c of None \<Rightarrow> None | Some e \<Rightarrow> e)"

definition removeAt :: "Item option list \<Rightarrow> num \<Rightarrow> bool \<times> Item option list" where
  "removeAt c s =
     (case findIndex (holdsSlot s) c of
        None \<Rightarrow> (False, c)
      | Some i \<Rightarrow> (True, take i c @ drop (Suc i) c))"

definition insertAt ::
  "nat \<Rightarrow> Item option list \<Rightarrow> Item \<Rightarrow> num \<Rightarrow> bool \<times> Item option list" where
  "insertAt capacity c it s =
     (case s of
        None \<Rightarrow> (False, c)
      | Some n \<Rightarrow>
          if n < 0 \<or> int capacity \<le> n then (False, c)
          else if isSlotFree c s then (True, c @ [Some (it\<lparr>slot := n\<rparr>)])
          else (False, c))"

text \<open>
  The collaborators whose behaviour neither the source file nor the spec fixes are
  parameters of the model: the capacity of each owned container, the placement policy
  \<^verbatim>\<open>allItemRulesValid\<close>, \<^verbatim>\<open>handleSwapOrStack\<close> (its effect on the player's data; the
  source's comment says it saves and synchronises by itself), \<^verbatim>\<open>getSlotType\<close>,
  \<^verbatim>\<open>sha256Random\<close> of the serialised item, and \<^verbatim>\<open>getPositionFrontOf\<close>.
\<close>

record Collab =
  maxSlots :: "INVENTORY_TYPE \<Rightarrow> nat"
  allItemRulesValid :: "Item \<Rightarrow> INVENTORY_TYPE \<Rightarrow> num \<Rightarrow> bool"
  handleSwapOrStack :: "Player \<Rightarrow> string \<Rightarrow> string \<Rightarrow> Player"
  getSlotType :: "string \<Rightarrow> INVENTORY_TYPE option"
  sha256Random :: "Item \<Rightarrow> string"
  getPositionFrontOf :: "Player \<Rightarrow> real \<Rightarrow> Vector3"

definition isInventorySlotFree :: "Player \<Rightarrow> num \<Rightarrow> bool" where
  "isInventorySlotFree p s = isSlotFree (data_inventory p) s"

definition getInventoryItem :: "Player \<Rightarrow> num \<Rightarrow> Item option" where
  "getInventoryItem p s = readItem (data_inventory p) s"

definition inventoryRemove :: "Player \<Rightarrow> num \<Rightarrow> bool \<times> Player" where
  "inventoryRemove p s =
     (let (ok, c) = removeAt (data_inventory p) s in (ok, p\<lparr>data_inventory := c\<rparr>))"

definition inventoryAdd :: "Collab \<Rightarrow> Player \<Rightarrow> Item \<Rightarrow> num \<Rightarrow> bool \<times> Player" where
  "inventoryAdd K p it s =
     (let (ok, c) = insertAt (maxSlots K INVENTORY) (data_inventory p) it s
      in (ok, p\<lparr>data_inventory := c\<rparr>))"

definition isToolbarSlotFree :: "Player \<Rightarrow> num \<Rightarrow> bool" where
  "isToolbarSlotFree p s = isSlotFree (data_toolbar p) s"

definition getToolbarItem :: "Player \<Rightarrow> num \<Rightarrow> Item option" where
  "getToolbarItem p s = readItem (data_toolbar p) s"

definition toolbarRemove :: "Player \<Rightarrow> num \<Rightarrow> bool \<times> Player" where
  "toolbarRemove p s =
     (let (ok, c) = removeAt (data_toolbar p) s in (ok, p\<lparr>data_toolbar := c\<rparr>))"

definition toolbarAdd :: "Collab \<Rightarrow> Player \<Rightarrow> Item \<Rightarrow> num \<Rightarrow> bool \<times> Player" where
  "toolbarAdd K p it s =
     (let (ok, c) = insertAt (maxSlots K TOOLBAR) (data_toolbar p) it s
      in (ok, p\<lparr>data_toolbar := c\<rparr>))"

definition isEquipmentSlotFree :: "Player \<Rightarrow> num \<Rightarrow> bool" where
  "isEquipmentSlotFree p s = isSlotFree (data_equipment p) s"

definition getEquipmentItem :: "Player \<Rightarrow> num \<Rightarrow> Item option" where
  "getEquipmentItem p s = readItem (data_equipment p) s"

definition equipmentRemove :: "Player \<Rightarrow> num \<Rightarrow> bool \<times> Player" where
  "equipmentRemove p s =
     (let (ok, c) = removeAt (data_equipment p) s in (ok, p\<lparr>data_equipment := c\<rparr>))"

definition equipmentAdd :: "Collab \<Rightarrow> Player \<Rightarrow> Item \<Rightarrow> num \<Rightarrow> bool \<times> Player" where
  "equipmentAdd K p it s =
     (let (ok, c) = insertAt (maxSlots K EQUIPMENT) (data_equipment p) it s
      in (ok, p\<lparr>data_equipment := c\<rparr>))"

text \<open>
  Modelled from the spec: \<^verbatim>\<open>getFreeInventorySlot\<close> is imported only; it "auto-selects the
  first free Personal Storage slot and fails outright if none exists". The source reads
  the slot number off the result (\<^verbatim>\<open>openSlot.slot\<close>); \<open>None\<close> is \<^verbatim>\<open>null\<close>.
\<close>

definition getFreeInventorySlot :: "Collab \<Rightarrow> Player \<Rightarrow> int option" where
  "getFreeInventorySlot K p =
     map_option int
       (find (\<lambda>n. isInventorySlotFree p (Some (int n))) [0 ..< maxSlots K INVENTORY])"

text \<open>
  Modelled from the spec: \<^verbatim>\<open>replaceInventoryItem\<close> is imported only. Using a consumable of
  quantity 2 "leaves quantity 1 in place": the entry of Personal Storage that holds the
  item's slot is overwritten by the item.
\<close>

definition replaceInventoryItem :: "Player \<Rightarrow> Item \<Rightarrow> bool \<times> Player" where
  "replaceInventoryItem p it =
     (case findIndex (holdsSlot (Some (slot it))) (data_inventory p) of
        None \<Rightarrow> (False, p)
      | Some i \<Rightarrow> (True, p\<lparr>data_inventory := (data_inventory p)[i := Some it]\<rparr>))"

text \<open>
  \<^verbatim>\<open>player.data[name]\<close>: there is no field for the ground (\<^verbatim>\<open>undefined\<close>), and for a
  player without data there is nothing to read (the read throws). In both cases the
  result is \<open>None\<close>, and a method called on it throws.
\<close>

definition data_of :: "INVENTORY_TYPE \<Rightarrow> Player \<Rightarrow> Item option list option" where
  "data_of t p =
     (if hasData p then
        (case t of
           INVENTORY \<Rightarrow> Some (data_inventory p)
         | EQUIPMENT \<Rightarrow> Some (data_equipment p)
         | TOOLBAR \<Rightarrow> Some (data_toolbar p)
         | GROUND \<Rightarrow> None)
      else None)"

text \<open>The table \<^verbatim>\<open>DataHelpers\<close>; a \<^verbatim>\<open>null\<close> function is \<open>None\<close>.\<close>

record CategoryData =
  abbrv :: string
  name :: INVENTORY_TYPE
  emptyCheck :: "(Player \<Rightarrow> num \<Rightarrow> bool) option"
  getItem :: "(Player \<Rightarrow> num \<Rightarrow> Item option) option"
  removeItem :: "(Player \<Rightarrow> num \<Rightarrow> bool \<times> Player) option"
  addItem :: "(Player \<Rightarrow> Item \<Rightarrow> num \<Rightarrow> bool \<times> Player) option"

definition inventoryData :: "Collab \<Rightarrow> CategoryData" where
  "inventoryData K =
     \<lparr>abbrv = SLOT_TYPE_INVENTORY, name = INVENTORY,
      emptyCheck = Some isInventorySlotFree, getItem = Some getInventoryItem,
      removeItem = Some inventoryRemove, addItem = Some (inventoryAdd K)\<rparr>"

definition toolbarData :: "Collab \<Rightarrow> CategoryData" where
  "toolbarData K =
     \<lparr>abbrv = SLOT_TYPE_TOOLBAR, name = TOOLBAR,
      emptyCheck = Some isToolbarSlotFree, getItem = Some getToolbarItem,
      removeItem = Some toolbarRemove, addItem = Some (toolbarAdd K)\<rparr>"

definition equipmentData :: "Collab \<Rightarrow> CategoryData" where
  "equipmentData K =
     \<lparr>abbrv = SLOT_TYPE_EQUIPMENT, name = EQUIPMENT,
      emptyCheck = Some isEquipmentSlotFree, getItem = Some getEquipmentItem,
      removeItem = Some equipmentRemove, addItem = Some (equipmentAdd K)\<rparr>"

definition groundData :: CategoryData where
  "groundData =
     \<lparr>abbrv = SLOT_TYPE_GROUND, name = GROUND,
      emptyCheck = None, getItem = None, removeItem = None, addItem = None\<rparr>"

definition DataHelpers :: "Collab \<Rightarrow> CategoryData list" where
  "DataHelpers K = [inventoryData K, toolbarData K, equipmentData K, groundData]"

text \<open>\<^verbatim>\<open>DataHelpers.find((dataInfo) => slot.includes(dataInfo.abbrv))\<close>\<close>

definition findData :: "Collab \<Rightarrow> string \<Rightarrow> CategoryData option" where
  "findData K slotName = find (\<lambda>dataInfo. includesStr slotName (abbrv dataInfo)) (DataHelpers K)"

section \<open>Calls to collaborators\<close>

text \<open>
  What an operation does besides changing the player's data and \<^verbatim>\<open>GROUND_ITEMS\<close> is the
  list of the calls it makes, in order: \<^verbatim>\<open>playerFuncs.sync.inventory\<close>,
  \<^verbatim>\<open>playerFuncs.save.field\<close> with the field's name and contents, the sounds, animations
  and messages of \<^verbatim>\<open>playerFuncs.emit\<close> (the random volume of a sound is left out),
  \<^verbatim>\<open>player.removeAllWeapons\<close>, \<^verbatim>\<open>handleSwapOrStack\<close>, the streamers'
  \<^verbatim>\<open>append\<close> and \<^verbatim>\<open>remove\<close>, and \<^verbatim>\<open>alt.emit\<close>. \<open>VerifyRules\<close> records a
  call of \<^verbatim>\<open>verifyRules\<close> with its arguments and its verdict.
\<close>

datatype effect =
    SyncInventory
  | SaveField INVENTORY_TYPE "Item option list option"
  | Sound2D string
  | Animation string string int int
  | Message string
  | RemoveAllWeapons
  | HandleSwapOrStack string string
  | VerifyRules INVENTORY_RULES "Item option" num num bool
  | ItemAppend DroppedItem string int Vector3
  | ObjectAppend Vector3 string int string int bool
  | ObjectRemove string
  | ItemRemove string
  | AltEmit string Item num
  | EmitDroppedItem Item

text \<open>
  An operation returns, or throws a \<^verbatim>\<open>TypeError\<close> (a property read off
  \<^verbatim>\<open>undefined\<close> or a call of \<^verbatim>\<open>null\<close>); either way with the world and the calls so far.
\<close>

datatype outcome = Returns World "effect list" | Throws World "effect list"

definition after :: "effect list \<Rightarrow> outcome \<Rightarrow> outcome" where
  "after pre out =
     (case out of Returns w t \<Rightarrow> Returns w (pre @ t) | Throws w t \<Rightarrow> Throws w (pre @ t))"

text \<open>
  Asynchrony. \<^verbatim>\<open>processItemMovement\<close>, \<^verbatim>\<open>handleDropGround\<close>, \<^verbatim>\<open>handlePickupGround\<close> and
  \<^verbatim>\<open>verifyRules\<close> are \<^verbatim>\<open>async\<close>; \<^verbatim>\<open>handleProcessPickup\<close>, \<^verbatim>\<open>processUse\<close> and
  \<^verbatim>\<open>processSplit\<close> are not. Every \<^verbatim>\<open>await\<close> of the file is an \<^verbatim>\<open>await verifyRules\<close>.
  An \<open>outcome\<close> of \<^verbatim>\<open>handleDropGround\<close>, \<^verbatim>\<open>handlePickupGround\<close> or
  \<^verbatim>\<open>processItemMovement\<close> is that of the whole run: all the calls the request makes, in
  order, until nothing of it is left to run.

  The two ground handlers are called without \<^verbatim>\<open>await\<close>. A call of an \<^verbatim>\<open>async\<close> function
  runs up to its first \<^verbatim>\<open>await\<close> and hands control back; what follows the \<^verbatim>\<open>await\<close>
  runs after the caller has returned. \<open>started\<close> is what such a call has done when it
  hands control back: \<open>Finished\<close> with the outcome of a run that met no \<^verbatim>\<open>await\<close>, or
  \<open>Awaiting\<close>, suspended at its \<^verbatim>\<open>await verifyRules\<close>. An \<open>invocation\<close> is an entry
  point seen from its caller: \<open>Completed\<close> with its outcome and nothing left to run, or
  \<open>Detached w t run\<close>: it has returned with the world \<open>w\<close> after the calls \<open>t\<close>, and the
  handler it did not wait for goes on to the outcome \<open>run\<close> of its whole run.
\<close>

datatype started = Finished outcome | Awaiting

datatype invocation = Completed outcome | Detached World "effect list" outcome

text \<open>
  A call without \<^verbatim>\<open>await\<close>, after the calls \<open>pre\<close> in the world \<open>w\<close>, followed by
  \<^verbatim>\<open>return\<close>. An exception inside an \<^verbatim>\<open>async\<close> function rejects its promise and does not
  reach the caller, which returns.
\<close>

definition notAwaited :: "effect list \<Rightarrow> World \<Rightarrow> started \<Rightarrow> outcome \<Rightarrow> invocation" where
  "notAwaited pre w st run =
     (case st of
        Finished out \<Rightarrow>
          (case out of
             Returns w1 t \<Rightarrow> Completed (Returns w1 (pre @ t))
           | Throws w1 t \<Rightarrow> Completed (Returns w1 (pre @ t)))
      | Awaiting \<Rightarrow> Detached w pre run)"

definition isVerifyRules :: "effect \<Rightarrow> bool" where
  "isVerifyRules e = (case e of VerifyRules r i a b v \<Rightarrow> True | _ \<Rightarrow> False)"

text \<open>The calls to collaborators among the calls of an operation.\<close>

definition collaboratorCalls :: "effect list \<Rightarrow> effect list" where
  "collaboratorCalls t = filter (\<lambda>e. \<not> isVerifyRules e) t"

text \<open>
  A guarded call of \<^verbatim>\<open>verifyRules\<close>: \<^verbatim>\<open>if (dataType) { result = await verifyRules(dataType, ...) }\<close>.
  Without a rule (\<open>None\<close>) nothing is verified and the operation goes on. \<open>verifyLog\<close> is
  the record of that call.
\<close>

definition verifyOptional ::
  "rule_table \<Rightarrow> INVENTORY_RULES option \<Rightarrow> Item option \<Rightarrow> num \<Rightarrow> num \<Rightarrow> bool" where
  "verifyOptional rules dataType it selectedSlot endSlot =
     (case dataType of
        None \<Rightarrow> True
      | Some rule \<Rightarrow> fst (verifyRules rules rule it selectedSlot endSlot))"

definition verifyLog ::
  "INVENTORY_RULES option \<Rightarrow> Item option \<Rightarrow> num \<Rightarrow> num \<Rightarrow> bool \<Rightarrow> effect list" where
  "verifyLog dataType it selectedSlot endSlot result =
     (case dataType of
        None \<Rightarrow> []
      | Some rule \<Rightarrow> [VerifyRules rule it selectedSlot endSlot result])"

text \<open>
  Modelled from the spec: \<^verbatim>\<open>distance2d\<close> (shared/utility/vector) is imported only. The
  spec speaks of "the actor's distance to the dropped item's position"; the helper that
  the source calls is the two-dimensional one, the Euclidean distance of the x and y
  components.
\<close>

definition distance2d :: "Vector3 \<Rightarrow> Vector3 \<Rightarrow> real" where
  "distance2d vector1 vector2 =
     sqrt ((vec_x vector1 - vec_x vector2)\<^sup>2 + (vec_y vector1 - vec_y vector2)\<^sup>2)"


section \<open>The controller\<close>

record RulePair =
  selected :: INVENTORY_RULES
  endRule :: INVENTORY_RULES

definition getInventoryRule :: "CategoryData \<Rightarrow> CategoryData \<Rightarrow> RulePair option" where
  "getInventoryRule selectData endData =
     (if includesStr (abbrv selectData) SLOT_TYPE_INVENTORY
         \<and> includesStr (abbrv endData) SLOT_TYPE_TOOLBAR then
        Some \<lparr>selected = FROM_INVENTORY_TO_TOOLBAR, endRule = FROM_TOOLBAR_TO_INVENTORY\<rparr>
      else if includesStr (abbrv selectData) SLOT_TYPE_INVENTORY
         \<and> includesStr (abbrv endData) SLOT_TYPE_EQUIPMENT then
        Some \<lparr>selected = FROM_INVENTORY_TO_EQUIPMENT, endRule = FROM_EQUIPMENT_TO_INVENTORY\<rparr>
      else if includesStr (abbrv selectData) SLOT_TYPE_EQUIPMENT
         \<and> includesStr (abbrv endData) SLOT_TYPE_INVENTORY then
        Some \<lparr>selected = FROM_EQUIPMENT_TO_INVENTORY, endRule = FROM_INVENTORY_TO_EQUIPMENT\<rparr>
      else if includesStr (abbrv selectData) SLOT_TYPE_EQUIPMENT
         \<and> includesStr (abbrv endData) SLOT_TYPE_TOOLBAR then
        Some \<lparr>selected = FROM_EQUIPMENT_TO_TOOLBAR, endRule = FROM_TOOLBAR_TO_EQUIPMENT\<rparr>
      else if includesStr (abbrv selectData) SLOT_TYPE_TOOLBAR
         \<and> includesStr (abbrv endData) SLOT_TYPE_INVENTORY then
        Some \<lparr>selected = FROM_TOOLBAR_TO_INVENTORY, endRule = FROM_INVENTORY_TO_TOOLBAR\<rparr>
      else if includesStr (abbrv selectData) SLOT_TYPE_TOOLBAR
         \<and> includesStr (abbrv endData) SLOT_TYPE_EQUIPMENT then
        Some \<lparr>selected = FROM_TOOLBAR_TO_EQUIPMENT, endRule = FROM_EQUIPMENT_TO_TOOLBAR\<rparr>
      else None)"

text \<open>\<^verbatim>\<open>value ? value : fallback\<close> on an optional string: absent and empty are falsy.\<close>

definition truthy :: "string option \<Rightarrow> bool" where
  "truthy v = (case v of None \<Rightarrow> False | Some t \<Rightarrow> t \<noteq> [])"

text \<open>The string of an optional string that has passed the test above.\<close>

definition stringOf :: "string option \<Rightarrow> string" where
  "stringOf v = (case v of None \<Rightarrow> [] | Some t \<Rightarrow> t)"

subsection \<open>handleDropGround\<close>

text \<open>The rule of a drop, chosen by the source container (\<^verbatim>\<open>let dataType\<close>).\<close>

definition dropDataType :: "CategoryData \<Rightarrow> INVENTORY_RULES option" where
  "dropDataType selectData =
     (if includesStr (abbrv selectData) SLOT_TYPE_INVENTORY then Some FROM_INVENTORY_TO_GROUND
      else if includesStr (abbrv selectData) SLOT_TYPE_EQUIPMENT then Some FROM_EQUIPMENT_TO_GROUND
      else if includesStr (abbrv selectData) SLOT_TYPE_TOOLBAR then Some FROM_TOOLBAR_TO_GROUND
      else None)"

text \<open>
  The end of \<^verbatim>\<open>handleDropGround\<close>, from \<^verbatim>\<open>itemClone.hash = sha256Random(...)\<close> on: the
  item gets its token, joins \<^verbatim>\<open>GROUND_ITEMS\<close> and is registered with the two streamers.
\<close>

definition placeOnGround :: "Collab \<Rightarrow> Item \<Rightarrow> World \<Rightarrow> World \<times> effect list" where
  "placeOnGround K itemClone w =
     (let p = player w;
          uid = sha256Random K itemClone;
          hashed = itemClone\<lparr>hash := Some uid\<rparr>;
          frontPosition = getPositionFrontOf K p (1 / 2);
          groundPos = \<lparr>vec_x = vec_x frontPosition, vec_y = vec_y frontPosition,
                       vec_z = vec_z (pos p) - 1\<rparr>;
          itemInfoPos = \<lparr>vec_x = vec_x frontPosition, vec_y = vec_y frontPosition,
                         vec_z = vec_z (pos p) - 3 / 10\<rparr>;
          droppedItem = \<lparr>gridSpace = player_gridSpace p, item = hashed,
                         position = itemInfoPos, dimension = player_dimension p\<rparr>;
          objectModel = (if truthy (model hashed) then stringOf (model hashed)
                         else ''prop_cs_box_clothes'')
      in (w\<lparr>GROUND_ITEMS := GROUND_ITEMS w @ [droppedItem]\<rparr>,
          [ItemAppend droppedItem uid 10 itemInfoPos,
           ObjectAppend groundPos uid 10 objectModel (player_dimension p) True,
           Animation ''random@mugging4'' ''pickup_low'' 33 1200,
           EmitDroppedItem hashed]))"

definition handleDropGround :: "Collab \<Rightarrow> rule_table \<Rightarrow> string \<Rightarrow> World \<Rightarrow> outcome" where
  "handleDropGround K rules selectedSlot w =
     (let p = player w; selectSlotIndex = stripCategory selectedSlot in
      case findData K selectedSlot of
        None \<Rightarrow> Throws w []
      | Some selectData \<Rightarrow>
          if name selectData = GROUND then Returns w [SyncInventory]
          else
            (case getItem selectData of
               None \<Rightarrow> Throws w []
             | Some getSel \<Rightarrow>
                 if vehicle p then Returns w [SyncInventory]
                 else
                   (case getSel p selectSlotIndex of
                      None \<Rightarrow> Returns w [SyncInventory]
                    | Some itemClone \<Rightarrow>
                        if \<not> isFlagEnabled (behavior itemClone) CAN_DROP then
                          Returns w [SyncInventory]
                        else if \<not> allItemRulesValid K itemClone GROUND None then
                          Returns w [SyncInventory]
                        else
                          (let dataType = dropDataType selectData;
                               result = verifyOptional rules dataType (Some itemClone)
                                          selectSlotIndex (Some (- 1));
                               checks = verifyLog dataType (Some itemClone)
                                          selectSlotIndex (Some (- 1)) result
                           in if \<not> result then Returns w (checks @ [SyncInventory])
                              else
                                (case removeItem selectData of
                                   None \<Rightarrow> Throws w checks
                                 | Some remove \<Rightarrow>
                                     (let (didRemoveItem, p1) = remove p (Some (slot itemClone));
                                          w1 = w\<lparr>player := p1\<rparr>
                                      in if \<not> didRemoveItem then
                                           Returns w1 (checks @ [SyncInventory])
                                         else
                                           (let saved =
                                                  checks @
                                                  [SaveField (name selectData)
                                                     (data_of (name selectData) p1),
                                                   SyncInventory, Sound2D ''item_drop_1'']
                                            in if isFlagEnabled (behavior itemClone)
                                                    DESTROY_ON_DROP then
                                                 Returns w1
                                                   (saved @
                                                    [Animation ''random@mugging4''
                                                       ''pickup_low'' 33 1200,
                                                     Message (itemName itemClone @
                                                       '' was destroyed on drop.'')])
                                               else
                                                 (let (w2, placed) = placeOnGround K itemClone w1
                                                  in Returns w2 (saved @ placed)))))))))"

text \<open>
  A call of \<^verbatim>\<open>handleDropGround\<close> up to its \<^verbatim>\<open>await verifyRules\<close>: the checks before
  \<^verbatim>\<open>let dataType\<close>, each of which resynchronises and returns at once. Without a rule
  there is no \<^verbatim>\<open>await\<close> and the call runs to its end.
\<close>

definition handleDropGround_start ::
  "Collab \<Rightarrow> rule_table \<Rightarrow> string \<Rightarrow> World \<Rightarrow> started" where
  "handleDropGround_start K rules selectedSlot w =
     (let p = player w; selectSlotIndex = stripCategory selectedSlot in
      case findData K selectedSlot of
        None \<Rightarrow> Finished (Throws w [])
      | Some selectData \<Rightarrow>
          if name selectData = GROUND then Finished (Returns w [SyncInventory])
          else
            (case getItem selectData of
               None \<Rightarrow> Finished (Throws w [])
             | Some getSel \<Rightarrow>
                 if vehicle p then Finished (Returns w [SyncInventory])
                 else
                   (case getSel p selectSlotIndex of
                      None \<Rightarrow> Finished (Returns w [SyncInventory])
                    | Some itemClone \<Rightarrow>
                        if \<not> isFlagEnabled (behavior itemClone) CAN_DROP then
                          Finished (Returns w [SyncInventory])
                        else if \<not> allItemRulesValid K itemClone GROUND None then
                          Finished (Returns w [SyncInventory])
                        else
                          (case dropDataType selectData of
                             None \<Rightarrow> Finished (handleDropGround K rules selectedSlot w)
                           | Some rule \<Rightarrow> Awaiting))))"

subsection \<open>handlePickupGround and handleProcessPickup\<close>

text \<open>The rule of a pickup, chosen by the destination container (\<^verbatim>\<open>let dataType\<close>).\<close>

definition pickupDataType :: "CategoryData \<Rightarrow> INVENTORY_RULES option" where
  "pickupDataType endData =
     (if includesStr (abbrv endData) SLOT_TYPE_INVENTORY then Some FROM_GROUND_TO_INVENTORY
      else if includesStr (abbrv endData) SLOT_TYPE_GROUND then Some FROM_GROUND_TO_EQUIPMENT
      else if includesStr (abbrv endData) SLOT_TYPE_TOOLBAR then Some FROM_GROUND_TO_TOOLBAR
      else None)"

definition handlePickupGround ::
  "Collab \<Rightarrow> rule_table \<Rightarrow> CategoryData \<Rightarrow> num \<Rightarrow> string option \<Rightarrow> World \<Rightarrow> outcome" where
  "handlePickupGround K rules endData endSlotIndex h w =
     (let p = player w in
      if vehicle p then Returns w [SyncInventory]
      else
        (case emptyCheck endData of
           None \<Rightarrow> Throws w []
         | Some isFree \<Rightarrow>
             if \<not> isFree p endSlotIndex then Returns w [SyncInventory]
             else if \<not> truthy h then Returns w [SyncInventory]
             else
               (case findIndex (\<lambda>gItem. hash (item gItem) = h) (GROUND_ITEMS w) of
                  None \<Rightarrow> Returns w [SyncInventory]
                | Some index \<Rightarrow>
                    (let droppedItem = GROUND_ITEMS w ! index in
                     if distance2d (pos p) (position droppedItem) \<ge> 10 then
                       Returns w [SyncInventory]
                     else if \<not> allItemRulesValid K (item droppedItem) (name endData)
                                 endSlotIndex then
                       Returns w [SyncInventory]
                     else
                       (let dataType = pickupDataType endData;
                            result = verifyOptional rules dataType (Some (item droppedItem))
                                       (Some (gridSpace droppedItem)) (Some (- 1));
                            checks = verifyLog dataType (Some (item droppedItem))
                                       (Some (gridSpace droppedItem)) (Some (- 1)) result;
                            isEquipmentItem =
                              isFlagEnabled (behavior (item droppedItem)) IS_EQUIPMENT;
                            isGoingToEquipment = (name endData = EQUIPMENT)
                        in if \<not> result then Returns w (checks @ [SyncInventory])
                           else if isEquipmentItem \<and> isGoingToEquipment
                                   \<and> data_sex (item droppedItem) \<noteq> Some (appearance_sex p)
                             then Returns w (checks @ [SyncInventory])
                           else
                             (let removedItems = take 1 (drop index (GROUND_ITEMS w));
                                  w1 = w\<lparr>GROUND_ITEMS :=
                                          take index (GROUND_ITEMS w)
                                          @ drop (Suc index) (GROUND_ITEMS w)\<rparr>
                              in if length removedItems \<le> 0 then
                                   Returns w1 (checks @ [SyncInventory])
                                 else
                                   (case addItem endData of
                                      None \<Rightarrow> Throws w1 checks
                                    | Some add \<Rightarrow>
                                        (let (didAddItem, p1) =
                                               add p (item droppedItem) endSlotIndex;
                                             w2 = w1\<lparr>player := p1\<rparr>
                                         in if \<not> didAddItem then
                                              Returns w2 (checks @ [SyncInventory])
                                            else
                                              Returns w2
                                                (checks @
                                                 [SaveField (name endData)
                                                    (data_of (name endData) p1),
                                                  SyncInventory,
                                                  Sound2D ''item_shuffle_1'',
                                                  Animation ''random@mugging4''
                                                    ''pickup_low'' 33 1200,
                                                  ObjectRemove (stringOf h),
                                                  ItemRemove (stringOf h)])))))))))"

text \<open>
  A call of \<^verbatim>\<open>handlePickupGround\<close> up to its \<^verbatim>\<open>await verifyRules\<close>: the checks before
  \<^verbatim>\<open>let dataType\<close>, each of which resynchronises and returns at once. Without a rule
  there is no \<^verbatim>\<open>await\<close> and the call runs to its end.
\<close>

definition handlePickupGround_start ::
  "Collab \<Rightarrow> rule_table \<Rightarrow> CategoryData \<Rightarrow> num \<Rightarrow> string option \<Rightarrow> World \<Rightarrow> started" where
  "handlePickupGround_start K rules endData endSlotIndex h w =
     (let p = player w in
      if vehicle p then Finished (Returns w [SyncInventory])
      else
        (case emptyCheck endData of
           None \<Rightarrow> Finished (Throws w [])
         | Some isFree \<Rightarrow>
             if \<not> isFree p endSlotIndex then Finished (Returns w [SyncInventory])
             else if \<not> truthy h then Finished (Returns w [SyncInventory])
             else
               (case findIndex (\<lambda>gItem. hash (item gItem) = h) (GROUND_ITEMS w) of
                  None \<Rightarrow> Finished (Returns w [SyncInventory])
                | Some index \<Rightarrow>
                    (let droppedItem = GROUND_ITEMS w ! index in
                     if distance2d (pos p) (position droppedItem) \<ge> 10 then
                       Finished (Returns w [SyncInventory])
                     else if \<not> allItemRulesValid K (item droppedItem) (name endData)
                                 endSlotIndex then
                       Finished (Returns w [SyncInventory])
                     else
                       (case pickupDataType endData of
                          None \<Rightarrow>
                            Finished (handlePickupGround K rules endData endSlotIndex h w)
                        | Some rule \<Rightarrow> Awaiting)))))"

text \<open>
  \<^verbatim>\<open>handleProcessPickup\<close> is not \<^verbatim>\<open>async\<close> and does not wait for \<^verbatim>\<open>handlePickupGround\<close>:
  it returns when the handler has finished or is suspended. For a player without data
  \<^verbatim>\<open>getFreeInventorySlot\<close>, which reads Personal Storage, throws.
\<close>

definition handleProcessPickup ::
  "Collab \<Rightarrow> rule_table \<Rightarrow> string option \<Rightarrow> World \<Rightarrow> invocation" where
  "handleProcessPickup K rules h w =
     (if \<not> hasData (player w) then Completed (Throws w [])
      else
        (case getFreeInventorySlot K (player w) of
           None \<Rightarrow> Completed (Returns w [SyncInventory])
         | Some openSlot \<Rightarrow>
             (case find (\<lambda>dataInfo. includesStr ''i-'' (abbrv dataInfo)) (DataHelpers K) of
                None \<Rightarrow> Completed (Returns w [SyncInventory])
              | Some endData \<Rightarrow>
                  notAwaited [] w
                    (handlePickupGround_start K rules endData (Some openSlot) h w)
                    (handlePickupGround K rules endData (Some openSlot) h w))))"

subsection \<open>processItemMovement\<close>

text \<open>
  The commit of a move into a free slot (from \<^verbatim>\<open>selectData.removeItem\<close> to the end of
  \<^verbatim>\<open>processItemMovement\<close>). \<open>pre\<close> is the calls made so far.
\<close>

definition commitMove ::
  "CategoryData \<Rightarrow> CategoryData \<Rightarrow> Item \<Rightarrow> num \<Rightarrow> effect list \<Rightarrow> World \<Rightarrow> outcome" where
  "commitMove selectData endData itemClone endSlotIndex pre w =
     (case removeItem selectData of
        None \<Rightarrow> Throws w pre
      | Some remove \<Rightarrow>
          (let (didRemoveItem, p1) = remove (player w) (Some (slot itemClone));
               w1 = w\<lparr>player := p1\<rparr>
           in if \<not> didRemoveItem then Returns w1 (pre @ [SyncInventory])
              else
                (case addItem endData of
                   None \<Rightarrow> Throws w1 pre
                 | Some add \<Rightarrow>
                     (let (didAddItem, p2) = add p1 itemClone endSlotIndex;
                          w2 = w\<lparr>player := p2\<rparr>
                      in if \<not> didAddItem then Returns w2 (pre @ [SyncInventory])
                         else
                           Returns w2
                             (pre @
                              [SaveField (name selectData) (data_of (name selectData) p2),
                               SaveField (name endData) (data_of (name endData) p2),
                               SyncInventory,
                               Sound2D ''item_shuffle_1''])))))"

text \<open>
  The part of \<^verbatim>\<open>processItemMovement\<close> after the two ground cases: a move between owned
  containers (from \<^verbatim>\<open>const selectSlotIndex\<close> on). Both calls of \<^verbatim>\<open>verifyRules\<close> are
  made with \<^verbatim>\<open>rules.selected\<close>; reading it off a \<^verbatim>\<open>null\<close> result of
  \<^verbatim>\<open>getInventoryRule\<close> throws.
\<close>

definition processItemMovement_owned ::
  "Collab \<Rightarrow> rule_table \<Rightarrow> CategoryData \<Rightarrow> CategoryData \<Rightarrow> string \<Rightarrow> string
     \<Rightarrow> effect list \<Rightarrow> World \<Rightarrow> outcome" where
  "processItemMovement_owned K rules selectData endData selectedSlot endSlot pre w =
     (let p = player w;
          endSlotIndex = stripCategory endSlot;
          selectSlotIndex = stripCategory selectedSlot
      in case getItem selectData of
           None \<Rightarrow> Throws w pre
         | Some getSel \<Rightarrow>
             (case getSel p selectSlotIndex of
                None \<Rightarrow> Returns w (pre @ [SyncInventory])
              | Some itemClone \<Rightarrow>
                  if abbrv selectData \<noteq> abbrv endData
                     \<and> getInventoryRule selectData endData = None then Throws w pre
                  else
                    (let dataType =
                           (if abbrv selectData \<noteq> abbrv endData
                            then map_option selected (getInventoryRule selectData endData)
                            else None);
                         selectedResult = verifyOptional rules dataType (Some itemClone)
                                            selectSlotIndex endSlotIndex;
                         checks1 = verifyLog dataType (Some itemClone)
                                     selectSlotIndex endSlotIndex selectedResult
                     in if \<not> selectedResult then Returns w (pre @ checks1 @ [SyncInventory])
                        else if (case emptyCheck endData of
                                   None \<Rightarrow> False
                                 | Some isFree \<Rightarrow> \<not> isFree p endSlotIndex) then
                          (case getItem endData of
                             None \<Rightarrow>
                               if abbrv selectData \<noteq> abbrv endData
                               then Throws w (pre @ checks1)
                               else
                                 Returns
                                   (w\<lparr>player := handleSwapOrStack K p selectedSlot endSlot\<rparr>)
                                   (pre @ checks1 @ [HandleSwapOrStack selectedSlot endSlot])
                           | Some getEnd \<Rightarrow>
                               (let endItemClone = getEnd p endSlotIndex;
                                    endResult = verifyOptional rules dataType endItemClone
                                                  endSlotIndex selectSlotIndex;
                                    checks2 = verifyLog dataType endItemClone
                                                endSlotIndex selectSlotIndex endResult
                                in if \<not> endResult then
                                     Returns w (pre @ checks1 @ checks2 @ [SyncInventory])
                                   else
                                     Returns
                                       (w\<lparr>player :=
                                            handleSwapOrStack K p selectedSlot endSlot\<rparr>)
                                       (pre @ checks1 @ checks2
                                        @ [HandleSwapOrStack selectedSlot endSlot])))
                        else if \<not> allItemRulesValid K itemClone (name endData) endSlotIndex then
                          Returns w (pre @ checks1 @ [SyncInventory])
                        else if isFlagEnabled (behavior itemClone) IS_EQUIPMENT
                                \<and> data_sex itemClone \<noteq> Some (appearance_sex p) then
                          Returns w (pre @ checks1 @ [SyncInventory])
                        else commitMove selectData endData itemClone endSlotIndex
                               (pre @ checks1) w)))"

definition processItemMovement ::
  "Collab \<Rightarrow> rule_table \<Rightarrow> string \<Rightarrow> string \<Rightarrow> string option \<Rightarrow> World \<Rightarrow> outcome" where
  "processItemMovement K rules selectedSlot endSlot h w =
     (if \<not> (valid (player w) \<and> hasData (player w)) then Returns w []
      else if selectedSlot = endSlot then Returns w [SyncInventory]
      else
        (case (findData K endSlot, findData K selectedSlot) of
           (Some endData, Some selectData) \<Rightarrow>
             (let endSlotIndex = stripCategory endSlot;
                  pre = (if name selectData = TOOLBAR \<and> name endData \<noteq> TOOLBAR
                         then [RemoveAllWeapons] else [])
              in if name endData = GROUND then
                   after pre (handleDropGround K rules selectedSlot w)
                 else if name selectData = GROUND then
                   after pre (handlePickupGround K rules endData endSlotIndex h w)
                 else
                   processItemMovement_owned K rules selectData endData selectedSlot endSlot
                     pre w)
         | _ \<Rightarrow> Throws w []))"

text \<open>
  \<^verbatim>\<open>processItemMovement\<close> seen from its caller: its promise is settled when its own body
  has run. It waits for its own \<^verbatim>\<open>await verifyRules\<close>, but not for the ground handlers,
  after whose call it returns.
\<close>

definition processItemMovement_call ::
  "Collab \<Rightarrow> rule_table \<Rightarrow> string \<Rightarrow> string \<Rightarrow> string option \<Rightarrow> World \<Rightarrow> invocation" where
  "processItemMovement_call K rules selectedSlot endSlot h w =
     (if \<not> (valid (player w) \<and> hasData (player w)) then Completed (Returns w [])
      else if selectedSlot = endSlot then Completed (Returns w [SyncInventory])
      else
        (case (findData K endSlot, findData K selectedSlot) of
           (Some endData, Some selectData) \<Rightarrow>
             (let endSlotIndex = stripCategory endSlot;
                  pre = (if name selectData = TOOLBAR \<and> name endData \<noteq> TOOLBAR
                         then [RemoveAllWeapons] else [])
              in if name endData = GROUND then
                   notAwaited pre w (handleDropGround_start K rules selectedSlot w)
                     (handleDropGround K rules selectedSlot w)
                 else if name selectData = GROUND then
                   notAwaited pre w
                     (handlePickupGround_start K rules endData endSlotIndex h w)
                     (handlePickupGround K rules endData endSlotIndex h w)
                 else
                   Completed
                     (processItemMovement_owned K rules selectData endData selectedSlot
                        endSlot pre w))
         | _ \<Rightarrow> Completed (Throws w [])))"

subsection \<open>processUse\<close>

definition processUse :: "Collab \<Rightarrow> string \<Rightarrow> World \<Rightarrow> outcome" where
  "processUse K selectedSlot w =
     (let p = player w in
      if selectedSlot = [] then Returns w [SyncInventory]
      else
        (let slotNumber = stripCategory selectedSlot in
         if slotNumber = None then Returns w [SyncInventory]
         else
           (case (case getSlotType K selectedSlot of
                    None \<Rightarrow> None
                  | Some slotType \<Rightarrow> data_of slotType p) of
              None \<Rightarrow> Throws w []
            | Some container \<Rightarrow>
                (case readItem container slotNumber of
                   None \<Rightarrow> Returns w [SyncInventory]
                 | Some it \<Rightarrow>
                     if equipment it \<noteq> None then
                       (if includesStr selectedSlot ''t-'' then Returns w [SyncInventory]
                        else if includesStr selectedSlot ''e-'' then
                          (case getFreeInventorySlot K p of
                             None \<Rightarrow> Returns w [SyncInventory]
                           | Some openSlot \<Rightarrow>
                               (let (removed, p1) = equipmentRemove p (equipment it) in
                                if \<not> removed then
                                  Returns (w\<lparr>player := p1\<rparr>) [SyncInventory]
                                else
                                  (let p2 = snd (inventoryAdd K p1 it (Some openSlot))
                                   in Returns (w\<lparr>player := p2\<rparr>)
                                        [SaveField EQUIPMENT (Some (data_equipment p2)),
                                         SaveField INVENTORY (Some (data_inventory p2)),
                                         SyncInventory])))
                        else
                          (let (removed, p1) = inventoryRemove p (Some (slot it)) in
                           if \<not> removed then Returns (w\<lparr>player := p1\<rparr>) [SyncInventory]
                           else
                             (case (case findIndex
                                           (\<lambda>i. case i of
                                                  None \<Rightarrow> False
                                                | Some e \<Rightarrow> equipment e = equipment it)
                                           (data_equipment p1) of
                                      None \<Rightarrow> Some p1
                                    | Some targetSlotIndex \<Rightarrow>
                                        (let removedItem = data_equipment p1 ! targetSlotIndex;
                                             (unequipped, p2) =
                                               equipmentRemove p1 (equipment it)
                                         in if \<not> unequipped then None
                                            else
                                              (case removedItem of
                                                 None \<Rightarrow> Some p2
                                               | Some old \<Rightarrow>
                                                   Some (snd (inventoryAdd K p2 old
                                                                (Some (slot it))))))) of
                                None \<Rightarrow> Returns (w\<lparr>player := p1\<rparr>) [SyncInventory]
                              | Some p3 \<Rightarrow>
                                  (let p4 = snd (equipmentAdd K p3 it (equipment it))
                                   in Returns (w\<lparr>player := p4\<rparr>)
                                        [SaveField EQUIPMENT (Some (data_equipment p4)),
                                         SaveField INVENTORY (Some (data_inventory p4)),
                                         SyncInventory]))))
                     else if \<not> isFlagEnabled (behavior it) CONSUMABLE then
                       Returns w [SyncInventory]
                     else
                       (let (used, p1, consumed) =
                              (if \<not> isFlagEnabled (behavior it) SKIP_CONSUMABLE then
                                 (let less = it\<lparr>quantity := quantity it - 1\<rparr>;
                                      p1 = (if quantity less \<le> 0
                                            then snd (inventoryRemove p slotNumber)
                                            else snd (replaceInventoryItem p less))
                                  in (less, p1,
                                      [SaveField INVENTORY (Some (data_inventory p1)),
                                       SyncInventory]))
                               else (it, p, []))
                        in Returns (w\<lparr>player := p1\<rparr>)
                             (consumed @
                              (if truthy (data_event used) then
                                 [AltEmit (stringOf (data_event used)) used slotNumber,
                                  Sound2D ''item_use'']
                               else [])))))))"

subsection \<open>processSplit\<close>

text \<open>
  The slot identifier comes from the client and may be missing (\<open>None\<close> is \<^verbatim>\<open>null\<close> or
  \<^verbatim>\<open>undefined\<close>): \<^verbatim>\<open>selectedSlot.includes\<close> then throws, and so does
  \<^verbatim>\<open>player.data.inventory.findIndex\<close> for a player without data. The two tests of the
  amount come first.
\<close>

definition processSplit :: "Collab \<Rightarrow> string option \<Rightarrow> num \<Rightarrow> World \<Rightarrow> outcome" where
  "processSplit K selectedSlot amount w =
     (let p = player w in
      case amount of
        None \<Rightarrow> Returns w [SyncInventory]
      | Some n \<Rightarrow>
          if n \<le> 0 then Returns w [SyncInventory]
          else
            (case selectedSlot of
               None \<Rightarrow> Throws w []
             | Some slotName \<Rightarrow>
                 if \<not> includesStr slotName ''i-'' then Returns w [SyncInventory]
                 else if \<not> hasData p then Throws w []
                 else
                   (let currentSlotValue = stripCategory slotName in
                    case findIndex (holdsSlot currentSlotValue) (data_inventory p) of
                      None \<Rightarrow> Returns w [SyncInventory]
                    | Some index \<Rightarrow>
                        (case getFreeInventorySlot K p of
                           None \<Rightarrow> Returns w [SyncInventory]
                         | Some inventorySlot \<Rightarrow>
                             (case data_inventory p ! index of
                                None \<Rightarrow> Throws w []
                              | Some clonedItem \<Rightarrow>
                                  if quantity clonedItem < n then Returns w [SyncInventory]
                                  else if n \<ge> quantity clonedItem then
                                    Returns w [SyncInventory]
                                  else
                                    (let p1 = p\<lparr>data_inventory :=
                                                 (data_inventory p)
                                                   [index := Some (clonedItem
                                                      \<lparr>quantity := quantity clonedItem - n\<rparr>)]\<rparr>;
                                         p2 = snd (inventoryAdd K p1
                                                     (clonedItem\<lparr>quantity := n\<rparr>)
                                                     (Some inventorySlot))
                                     in Returns (w\<lparr>player := p2\<rparr>)
                                          [SaveField INVENTORY (Some (data_inventory p2)),
                                           SyncInventory]))))))"

section \<open>Observations and example data\<close>

text \<open>The calls an operation has made and the world it leaves, however it ended.\<close>

definition calls_of :: "outcome \<Rightarrow> effect list" where
  "calls_of out = (case out of Returns w t \<Rightarrow> t | Throws w t \<Rightarrow> t)"

definition world_of :: "outcome \<Rightarrow> World" where
  "world_of out = (case out of Returns w t \<Rightarrow> w | Throws w t \<Rightarrow> w)"

text \<open>A run whose first call is a verification of rules.\<close>

definition awaitsVerification :: "outcome \<Rightarrow> bool" where
  "awaitsVerification out =
     (case calls_of out of [] \<Rightarrow> False | e # rest \<Rightarrow> isVerifyRules e)"

text \<open>An outcome that is a return after a resynchronisation.\<close>

definition syncedReturn :: "outcome \<Rightarrow> bool" where
  "syncedReturn out =
     (case out of Returns w t \<Rightarrow> SyncInventory \<in> set t | Throws w t \<Rightarrow> False)"

text \<open>
  Example collaborators and data for the evaluations below: containers of 28 slots, a
  placement policy that accepts everything, a \<^verbatim>\<open>handleSwapOrStack\<close> that leaves the
  player's data alone, a \<^verbatim>\<open>getSlotType\<close> that reads the container off the prefix of the
  slot identifier, a fixed token, and a rule callback that rejects everything.
\<close>

definition slotTypeByPrefix :: "string \<Rightarrow> INVENTORY_TYPE option" where
  "slotTypeByPrefix s =
     (if includesStr s ''i-'' then Some INVENTORY
      else if includesStr s ''t-'' then Some TOOLBAR
      else if includesStr s ''e-'' then Some EQUIPMENT
      else if includesStr s ''g-'' then Some GROUND
      else None)"

definition origin :: Vector3 where
  "origin = \<lparr>vec_x = 0, vec_y = 0, vec_z = 0\<rparr>"

definition acceptAll :: "Item \<Rightarrow> INVENTORY_TYPE \<Rightarrow> num \<Rightarrow> bool" where
  "acceptAll it t s = True"

definition rejectAll :: rule_callback where
  "rejectAll it a b r = False"

definition keepPlayer :: "Player \<Rightarrow> string \<Rightarrow> string \<Rightarrow> Player" where
  "keepPlayer p a b = p"

definition fixedToken :: "Item \<Rightarrow> string" where
  "fixedToken it = ''token''"

definition standingAt :: "Player \<Rightarrow> real \<Rightarrow> Vector3" where
  "standingAt p d = pos p"

definition slots28 :: "INVENTORY_TYPE \<Rightarrow> nat" where
  "slots28 t = 28"

definition exampleCollab :: Collab where
  "exampleCollab =
     \<lparr>maxSlots = slots28, allItemRulesValid = acceptAll,
      handleSwapOrStack = keepPlayer, getSlotType = slotTypeByPrefix,
      sha256Random = fixedToken, getPositionFrontOf = standingAt\<rparr>"

definition exampleItem :: "string \<Rightarrow> int \<Rightarrow> int \<Rightarrow> ITEM_TYPE set \<Rightarrow> Item" where
  "exampleItem n s q flags =
     \<lparr>itemName = n, slot = s, quantity = q, behavior = flags, equipment = None,
      hash = None, model = None, data_sex = None, data_event = None\<rparr>"

definition examplePlayer ::
  "Item option list \<Rightarrow> Item option list \<Rightarrow> Item option list \<Rightarrow> Player" where
  "examplePlayer inventory0 equipment0 toolbar0 =
     \<lparr>valid = True, hasData = True, vehicle = False, pos = origin, appearance_sex = 0,
      player_gridSpace = 0, player_dimension = 0,
      data_inventory = inventory0, data_equipment = equipment0, data_toolbar = toolbar0\<rparr>"

text \<open>
  A world with two apples (consumable, droppable) in \<^verbatim>\<open>i-0\<close> and a hat with the token
  \<^verbatim>\<open>token\<close> on the ground at the player's feet.
\<close>

definition appleWorld :: World where
  "appleWorld =
     \<lparr>player = examplePlayer [Some (exampleItem ''apple'' 0 2 {CAN_DROP, CONSUMABLE})] [] [],
      GROUND_ITEMS =
        [\<lparr>gridSpace = 0, item = (exampleItem ''hat'' 0 1 {})\<lparr>hash := Some ''token''\<rparr>,
          position = origin, dimension = 0\<rparr>]\<rparr>"

section \<open>Unfolding rules\<close>

lemmas SLOT_TYPE_defs =
  SLOT_TYPE_INVENTORY_def SLOT_TYPE_EQUIPMENT_def SLOT_TYPE_TOOLBAR_def SLOT_TYPE_GROUND_def

lemmas adapter_defs =
  isInventorySlotFree_def getInventoryItem_def inventoryRemove_def inventoryAdd_def
  isToolbarSlotFree_def getToolbarItem_def toolbarRemove_def toolbarAdd_def
  isEquipmentSlotFree_def getEquipmentItem_def equipmentRemove_def equipmentAdd_def

lemmas DataHelpers_defs =
  DataHelpers_def inventoryData_def toolbarData_def equipmentData_def groundData_def

lemmas example_defs =
  slotTypeByPrefix_def origin_def exampleCollab_def exampleItem_def examplePlayer_def
  acceptAll_def rejectAll_def keepPlayer_def fixedToken_def standingAt_def slots28_def

lemmas eval_defs =
  processItemMovement_def processItemMovement_owned_def commitMove_def
  findData_def DataHelpers_defs SLOT_TYPE_defs adapter_defs stripCategory_def digitValue_def
  isSlotFree_def readItem_def removeAt_def insertAt_def holdsSlot_def
  getInventoryRule_def verifyOptional_def verifyLog_def verifyRules_def ITEM_RULES_def
  isFlagEnabled_def data_of_def after_def handleDropGround_def handlePickupGround_def
  placeOnGround_def dropDataType_def pickupDataType_def truthy_def stringOf_def Let_def
  processUse_def processSplit_def getFreeInventorySlot_def replaceInventoryItem_def
  handleProcessPickup_def distance2d_def verifyRules_loop.simps
  handleDropGround_start_def handlePickupGround_start_def notAwaited_def
  processItemMovement_call_def

section \<open>Basic facts\<close>

lemma calls_of_simps [simp]:
  "calls_of (Returns w t) = t" "calls_of (Throws w t) = t"
  by (simp_all add: calls_of_def)

lemma world_of_simps [simp]:
  "world_of (Returns w t) = w" "world_of (Throws w t) = w"
  by (simp_all add: world_of_def)

lemma syncedReturn_simps [simp]:
  "syncedReturn (Returns w t) = (SyncInventory \<in> set t)" "syncedReturn (Throws w t) = False"
  by (simp_all add: syncedReturn_def)

lemma syncedReturn_iff:
  "syncedReturn out \<longleftrightarrow> (\<exists>w t. out = Returns w t \<and> SyncInventory \<in> set t)"
  by (cases out) simp_all

lemma calls_of_after [simp]: "calls_of (after pre out) = pre @ calls_of out"
  by (cases out) (simp_all add: after_def)

lemma collaboratorCalls_Nil [simp]: "collaboratorCalls [] = []"
  by (simp add: collaboratorCalls_def)

lemma collaboratorCalls_Cons [simp]:
  "collaboratorCalls (e # t) =
     (if isVerifyRules e then collaboratorCalls t else e # collaboratorCalls t)"
  by (simp add: collaboratorCalls_def)

lemma collaboratorCalls_append [simp]:
  "collaboratorCalls (t1 @ t2) = collaboratorCalls t1 @ collaboratorCalls t2"
  by (simp add: collaboratorCalls_def)

lemma isVerifyRules_simps [simp]:
  "isVerifyRules (VerifyRules r i a b v)"
  "\<not> isVerifyRules SyncInventory"
  "\<not> isVerifyRules (SaveField n c)"
  "\<not> isVerifyRules (Sound2D s)"
  "\<not> isVerifyRules (Animation d1 d2 f1 f2)"
  "\<not> isVerifyRules (Message m)"
  "\<not> isVerifyRules RemoveAllWeapons"
  "\<not> isVerifyRules (HandleSwapOrStack s1 s2)"
  "\<not> isVerifyRules (ItemAppend di u md v3)"
  "\<not> isVerifyRules (ObjectAppend v3 u md mo dm nc)"
  "\<not> isVerifyRules (ObjectRemove u)"
  "\<not> isVerifyRules (ItemRemove u)"
  "\<not> isVerifyRules (AltEmit ev i1 a)"
  "\<not> isVerifyRules (EmitDroppedItem i1)"
  by (simp_all add: isVerifyRules_def)

lemma verifyLog_collab [simp]: "collaboratorCalls (verifyLog d i a b v) = []"
  by (simp add: verifyLog_def split: option.split)

lemma verifyLog_True [simp]:
  "VerifyRules r i a b False \<notin> set (verifyLog d i' a' b' True)"
  by (simp add: verifyLog_def split: option.split)

lemma findData_cases:
  "findData K s = Some d \<Longrightarrow>
     d = inventoryData K \<or> d = toolbarData K \<or> d = equipmentData K \<or> d = groundData"
  by (auto simp: findData_def DataHelpers_def split: if_splits)

lemma find_inventory_abbrv:
  "find (\<lambda>dataInfo. includesStr ''i-'' (abbrv dataInfo)) (DataHelpers K)
     = Some (inventoryData K)"
  by (simp add: DataHelpers_defs SLOT_TYPE_defs)

lemma emptyCheck_inventoryData [simp]:
  "emptyCheck (inventoryData K) = Some isInventorySlotFree"
  by (simp add: inventoryData_def)

lemma findIndex_Some:
  "findIndex P xs = Some i \<Longrightarrow> i < length xs \<and> P (xs ! i)"
proof (induction xs arbitrary: i)
  case Nil
  then show ?case by simp
next
  case (Cons e es)
  then show ?case by (cases "P e") auto
qed

lemma find_findIndex:
  "find P xs = (case findIndex P xs of None \<Rightarrow> None | Some i \<Rightarrow> Some (xs ! i))"
  by (induction xs) (auto split: option.split)

lemma readItem_Some:
  assumes "readItem c s = Some it"
  shows "\<exists>i. findIndex (holdsSlot s) c = Some i \<and> i < length c \<and> c ! i = Some it
             \<and> s = Some (slot it)"
proof -
  from assms obtain i where i: "findIndex (holdsSlot s) c = Some i" and e: "c ! i = Some it"
    by (auto simp: readItem_def find_findIndex split: option.splits)
  from findIndex_Some [OF i] e have "i < length c" "s = Some (slot it)"
    by (auto simp: holdsSlot_def)
  with i e show ?thesis by blast
qed

lemma owned_data:
  assumes "findData K s = Some sd" "data_of (name sd) p = Some c"
  shows "(sd = inventoryData K \<and> c = data_inventory p)
       \<or> (sd = toolbarData K \<and> c = data_toolbar p)
       \<or> (sd = equipmentData K \<and> c = data_equipment p)"
  using findData_cases [OF assms(1)] assms(2)
  by (auto simp: DataHelpers_defs data_of_def split: if_splits)

lemma data_of_hasData: "data_of t p = Some c \<Longrightarrow> hasData p"
  by (simp add: data_of_def split: if_splits)

section \<open>Rule registry: order and short circuit\<close>

lemma verifyRules_loop_run:
  "i \<le> length cbs \<Longrightarrow>
   verifyRules_loop cbs rule it a b i done_calls =
     (list_all (\<lambda>cb. cb it a b rule) (drop i cbs),
      done_calls @ [i ..< min (length cbs)
        (Suc (i + length (takeWhile (\<lambda>cb. cb it a b rule) (drop i cbs))))])"
proof (induction cbs rule it a b i done_calls rule: verifyRules_loop.induct)
  case (1 callbacks rule it selectedSlot endSlot i invoked)
  show ?case
  proof (cases "i < length callbacks")
    case False
    with "1.prems" have "i = length callbacks" by simp
    then show ?thesis by (simp add: verifyRules_loop.simps)
  next
    case True
    then have d: "drop i callbacks = callbacks ! i # drop (Suc i) callbacks"
      by (simp add: Cons_nth_drop_Suc)
    show ?thesis
    proof (cases "(callbacks ! i) it selectedSlot endSlot rule")
      case False
      with True d show ?thesis
        by (simp add: verifyRules_loop.simps [of callbacks rule it selectedSlot endSlot i])
    next
      case pass: True
      from True have le: "Suc i \<le> length callbacks" by simp
      have ih: "verifyRules_loop callbacks rule it selectedSlot endSlot (Suc i) (invoked @ [i]) =
        (list_all (\<lambda>cb. cb it selectedSlot endSlot rule) (drop (Suc i) callbacks),
         (invoked @ [i]) @ [Suc i ..< min (length callbacks)
            (Suc (Suc i + length (takeWhile (\<lambda>cb. cb it selectedSlot endSlot rule)
                                    (drop (Suc i) callbacks))))])"
        using "1.IH" [OF True refl pass le] .
      have "[i ..< min (length callbacks)
               (Suc (Suc (i + length (takeWhile (\<lambda>cb. cb it selectedSlot endSlot rule)
                                        (drop (Suc i) callbacks)))))]
          = i # [Suc i ..< min (length callbacks)
               (Suc (Suc (i + length (takeWhile (\<lambda>cb. cb it selectedSlot endSlot rule)
                                        (drop (Suc i) callbacks)))))]"
        using True by (simp add: upt_conv_Cons)
      with True d pass ih show ?thesis
        by (simp add: verifyRules_loop.simps [of callbacks rule it selectedSlot endSlot i])
    qed
  qed
qed

text \<open>
  Claim C6. \<^verbatim>\<open>addRule\<close> appends the callback to the end of its rule's list, so a list is
  in registration order. \<^verbatim>\<open>verifyRules\<close> invokes the callbacks at the indices
  \<open>0, 1, 2, \<dots>\<close> in this order, up to and including the first callback that returns false
  (the length of the longest passing prefix is its index) and none after it; the verdict is
  true exactly when every callback of the list passes; with an empty list, as in the
  initial table, the verdict is true and no callback is invoked.
\<close>

theorem verifyRules_order_shortcircuit:
  "verifyRules rules rule it a b =
     (list_all (\<lambda>cb. cb it a b rule) (rules rule),
      [0 ..< min (length (rules rule))
               (Suc (length (takeWhile (\<lambda>cb. cb it a b rule) (rules rule))))])
   \<and> addRule (Some rule) callback rules = (True, rules(rule := rules rule @ [callback]))
   \<and> verifyRules ITEM_RULES rule it a b = (True, [])"
  by (simp add: verifyRules_def verifyRules_loop_run addRule_def ITEM_RULES_def)

section \<open>Swaps between different containers\<close>

text \<open>
  Claim C1: in a swap between containers of different kinds the orchestrator should verify
  the rule of the direction source to destination against the moved item and the rule of
  the direction destination to source against the occupying item, and move nothing if
  either rejects. The code calls \<^verbatim>\<open>verifyRules\<close> with \<^verbatim>\<open>rules.selected\<close> both times;
  \<^verbatim>\<open>rules.end\<close> is never read. Evaluated here: item A in \<^verbatim>\<open>i-0\<close>, item B in \<^verbatim>\<open>t-1\<close>,
  a rule that rejects everything registered for toolbar to inventory. Both recorded
  verifications are for inventory to toolbar, both pass, and the swap is handed to
  \<^verbatim>\<open>handleSwapOrStack\<close>, whatever the collaborators are.
\<close>

theorem swap_skips_reverse_rule:
  "processItemMovement K
      (ITEM_RULES(FROM_TOOLBAR_TO_INVENTORY := [rejectAll]))
      ''i-0'' ''t-1'' None
      \<lparr>player = examplePlayer [Some (exampleItem ''A'' 0 1 {})] [] [Some (exampleItem ''B'' 1 1 {})],
       GROUND_ITEMS = []\<rparr>
   = Returns
      \<lparr>player = handleSwapOrStack K
          (examplePlayer [Some (exampleItem ''A'' 0 1 {})] [] [Some (exampleItem ''B'' 1 1 {})])
          ''i-0'' ''t-1'',
       GROUND_ITEMS = []\<rparr>
      [VerifyRules FROM_INVENTORY_TO_TOOLBAR (Some (exampleItem ''A'' 0 1 {})) (Some 0) (Some 1) True,
       VerifyRules FROM_INVENTORY_TO_TOOLBAR (Some (exampleItem ''B'' 1 1 {})) (Some 1) (Some 0) True,
       HandleSwapOrStack ''i-0'' ''t-1'']"
  by (simp add: eval_defs example_defs)

section \<open>Rejection by a rule\<close>

lemma drop_reject:
  "VerifyRules r it a b False \<in> set (calls_of (handleDropGround K rules sel w)) \<longrightarrow>
   (\<exists>t. handleDropGround K rules sel w = Returns w t \<and> collaboratorCalls t = [SyncInventory])"
  unfolding handleDropGround_def Let_def placeOnGround_def
  by (simp split: option.split prod.split)


lemma pickup_reject:
  "VerifyRules r it a b False \<in> set (calls_of (handlePickupGround K rules ed s h w)) \<longrightarrow>
   (\<exists>t. handlePickupGround K rules ed s h w = Returns w t \<and> collaboratorCalls t = [SyncInventory])"
  unfolding handlePickupGround_def Let_def
  by (simp split: option.split prod.split)

lemma commitMove_calls:
  "VerifyRules r it a b False \<in> set (calls_of (commitMove sd ed ic s pre w)) \<longleftrightarrow>
   VerifyRules r it a b False \<in> set pre"
  unfolding commitMove_def Let_def
  by (simp split: option.split prod.split)

lemma owned_reject:
  "VerifyRules r it a b False \<in> set (calls_of (processItemMovement_owned K rules sd ed sel en pre w)) \<longrightarrow>
   VerifyRules r it a b False \<notin> set pre \<longrightarrow>
   (\<exists>t. processItemMovement_owned K rules sd ed sel en pre w = Returns w (pre @ t)
        \<and> collaboratorCalls t = [SyncInventory])"
  unfolding processItemMovement_owned_def Let_def
  by (simp split: option.split prod.split add: commitMove_calls)

text \<open>
  Claim C2, as amended: when a call of \<^verbatim>\<open>verifyRules\<close> made by a move or by a drop returns
  false, the operation returns with the world as it was (the containers and the ground
  store; nothing is saved). Its calls to collaborators are the resynchronisation alone,
  except when the source slot is in the toolbar and the destination is not: then they are
  \<^verbatim>\<open>removeAllWeapons\<close> followed by the resynchronisation, since the wielded weapons are
  cleared before anything is verified. A drop called by itself makes the resynchronisation
  only.
\<close>

theorem rule_rejection_aborts:
  "(VerifyRules r it a b False
      \<in> set (calls_of (processItemMovement K rules selectedSlot endSlot h w)) \<longrightarrow>
    (\<exists>t. processItemMovement K rules selectedSlot endSlot h w = Returns w t
       \<and> collaboratorCalls t =
           (if \<exists>selectData endData.
                 findData K selectedSlot = Some selectData \<and> findData K endSlot = Some endData
                 \<and> name selectData = TOOLBAR \<and> name endData \<noteq> TOOLBAR
            then [RemoveAllWeapons, SyncInventory] else [SyncInventory])))
   \<and> (VerifyRules r it a b False \<in> set (calls_of (handleDropGround K rules selectedSlot w)) \<longrightarrow>
      (\<exists>t. handleDropGround K rules selectedSlot w = Returns w t
         \<and> collaboratorCalls t = [SyncInventory]))"
proof (intro conjI impI)
  assume "VerifyRules r it a b False \<in> set (calls_of (handleDropGround K rules selectedSlot w))"
  then show "\<exists>t. handleDropGround K rules selectedSlot w = Returns w t
         \<and> collaboratorCalls t = [SyncInventory]"
    using drop_reject by blast
next
  assume rej: "VerifyRules r it a b False
      \<in> set (calls_of (processItemMovement K rules selectedSlot endSlot h w))"
  let ?V = "VerifyRules r it a b False"
  from rej have v: "valid (player w)" and dat: "hasData (player w)"
    and ne: "selectedSlot \<noteq> endSlot"
    by (auto simp: processItemMovement_def split: if_splits)
  from rej v dat ne obtain ed sd where ed: "findData K endSlot = Some ed"
    and sd: "findData K selectedSlot = Some sd"
    by (cases "findData K endSlot"; cases "findData K selectedSlot")
       (auto simp: processItemMovement_def)
  define pre where "pre = (if name sd = TOOLBAR \<and> name ed \<noteq> TOOLBAR
                         then [RemoveAllWeapons] else [])"
  have pre_cases: "pre = [] \<or> pre = [RemoveAllWeapons]" by (simp add: pre_def)
  then have npre: "?V \<notin> set pre" by auto
  have unfold: "processItemMovement K rules selectedSlot endSlot h w =
     (if name ed = GROUND then after pre (handleDropGround K rules selectedSlot w)
      else if name sd = GROUND then
        after pre (handlePickupGround K rules ed (stripCategory endSlot) h w)
      else processItemMovement_owned K rules sd ed selectedSlot endSlot pre w)"
    using v dat ne ed sd by (simp add: processItemMovement_def pre_def Let_def)
  have "\<exists>t. processItemMovement K rules selectedSlot endSlot h w = Returns w (pre @ t)
          \<and> collaboratorCalls t = [SyncInventory]"
  proof (cases "name ed = GROUND")
    case True
    with rej unfold npre
    have "?V \<in> set (calls_of (handleDropGround K rules selectedSlot w))" by simp
    with drop_reject obtain t where "handleDropGround K rules selectedSlot w = Returns w t"
      "collaboratorCalls t = [SyncInventory]" by blast
    with True unfold show ?thesis by (simp add: after_def)
  next
    case False
    show ?thesis
    proof (cases "name sd = GROUND")
      case True
      with rej unfold npre False
      have "?V \<in> set (calls_of (handlePickupGround K rules ed (stripCategory endSlot) h w))"
        by simp
      with pickup_reject obtain t where
        "handlePickupGround K rules ed (stripCategory endSlot) h w = Returns w t"
        "collaboratorCalls t = [SyncInventory]" by blast
      with True False unfold show ?thesis by (simp add: after_def)
    next
      case nsd: False
      with rej unfold False
      have "?V \<in> set (calls_of (processItemMovement_owned K rules sd ed selectedSlot endSlot pre w))"
        by simp
      with owned_reject npre obtain t where
        "processItemMovement_owned K rules sd ed selectedSlot endSlot pre w = Returns w (pre @ t)"
        "collaboratorCalls t = [SyncInventory]" by blast
      with nsd False unfold show ?thesis by simp
    qed
  qed
  then obtain t where t: "processItemMovement K rules selectedSlot endSlot h w = Returns w (pre @ t)"
    "collaboratorCalls t = [SyncInventory]" by blast
  have leaves: "(\<exists>selectData endData.
                 findData K selectedSlot = Some selectData \<and> findData K endSlot = Some endData
                 \<and> name selectData = TOOLBAR \<and> name endData \<noteq> TOOLBAR)
              \<longleftrightarrow> (name sd = TOOLBAR \<and> name ed \<noteq> TOOLBAR)"
    using sd ed by simp
  have "collaboratorCalls (pre @ t) =
           (if name sd = TOOLBAR \<and> name ed \<noteq> TOOLBAR
            then [RemoveAllWeapons, SyncInventory] else [SyncInventory])"
    using t(2) by (simp add: pre_def)
  with t(1) leaves
  show "\<exists>t. processItemMovement K rules selectedSlot endSlot h w = Returns w t
       \<and> collaboratorCalls t =
           (if \<exists>selectData endData.
                 findData K selectedSlot = Some selectData \<and> findData K endSlot = Some endData
                 \<and> name selectData = TOOLBAR \<and> name endData \<noteq> TOOLBAR
            then [RemoveAllWeapons, SyncInventory] else [SyncInventory])"
    by (intro exI [of _ "pre @ t"]) simp
qed

text \<open>
  The theorem at a move from \<^verbatim>\<open>t-0\<close> to \<^verbatim>\<open>i-1\<close> and at a drop of \<^verbatim>\<open>t-0\<close>, each with a
  rule that rejects.
\<close>

theorem rule_rejection_aborts_witness:
  "VerifyRules FROM_TOOLBAR_TO_INVENTORY (Some (exampleItem ''knife'' 0 1 {CAN_DROP})) (Some 0) (Some 1) False
     \<in> set (calls_of (processItemMovement exampleCollab
           (ITEM_RULES(FROM_TOOLBAR_TO_INVENTORY := [rejectAll])) ''t-0'' ''i-1'' None
           \<lparr>player = examplePlayer [] [] [Some (exampleItem ''knife'' 0 1 {CAN_DROP})],
            GROUND_ITEMS = []\<rparr>))
   \<and> (\<exists>t. processItemMovement exampleCollab
           (ITEM_RULES(FROM_TOOLBAR_TO_INVENTORY := [rejectAll])) ''t-0'' ''i-1'' None
           \<lparr>player = examplePlayer [] [] [Some (exampleItem ''knife'' 0 1 {CAN_DROP})],
            GROUND_ITEMS = []\<rparr>
         = Returns \<lparr>player = examplePlayer [] [] [Some (exampleItem ''knife'' 0 1 {CAN_DROP})],
                    GROUND_ITEMS = []\<rparr> t
         \<and> collaboratorCalls t = [RemoveAllWeapons, SyncInventory])
   \<and> VerifyRules FROM_TOOLBAR_TO_GROUND (Some (exampleItem ''knife'' 0 1 {CAN_DROP})) (Some 0) (Some (- 1)) False
     \<in> set (calls_of (handleDropGround exampleCollab
           (ITEM_RULES(FROM_TOOLBAR_TO_GROUND := [rejectAll])) ''t-0''
           \<lparr>player = examplePlayer [] [] [Some (exampleItem ''knife'' 0 1 {CAN_DROP})],
            GROUND_ITEMS = []\<rparr>))
   \<and> (\<exists>t. handleDropGround exampleCollab
           (ITEM_RULES(FROM_TOOLBAR_TO_GROUND := [rejectAll])) ''t-0''
           \<lparr>player = examplePlayer [] [] [Some (exampleItem ''knife'' 0 1 {CAN_DROP})],
            GROUND_ITEMS = []\<rparr>
         = Returns \<lparr>player = examplePlayer [] [] [Some (exampleItem ''knife'' 0 1 {CAN_DROP})],
                    GROUND_ITEMS = []\<rparr> t
         \<and> collaboratorCalls t = [SyncInventory])"
proof -
  let ?it = "exampleItem ''knife'' 0 1 {CAN_DROP}"
  let ?w = "\<lparr>player = examplePlayer [] [] [Some ?it], GROUND_ITEMS = []\<rparr>"
  have m: "VerifyRules FROM_TOOLBAR_TO_INVENTORY (Some ?it) (Some 0) (Some 1) False
     \<in> set (calls_of (processItemMovement exampleCollab
           (ITEM_RULES(FROM_TOOLBAR_TO_INVENTORY := [rejectAll])) ''t-0'' ''i-1'' None ?w))"
    by (simp add: eval_defs example_defs)
  have d: "VerifyRules FROM_TOOLBAR_TO_GROUND (Some ?it) (Some 0) (Some (- 1)) False
     \<in> set (calls_of (handleDropGround exampleCollab
           (ITEM_RULES(FROM_TOOLBAR_TO_GROUND := [rejectAll])) ''t-0'' ?w))"
    by (simp add: eval_defs example_defs)
  have leaves: "\<exists>selectData endData.
       findData exampleCollab ''t-0'' = Some selectData
       \<and> findData exampleCollab ''i-1'' = Some endData
       \<and> name selectData = TOOLBAR \<and> name endData \<noteq> TOOLBAR"
    by (simp add: findData_def DataHelpers_defs SLOT_TYPE_defs)
  from m leaves
    rule_rejection_aborts [of FROM_TOOLBAR_TO_INVENTORY "Some ?it"
      "Some 0" "Some 1" exampleCollab "ITEM_RULES(FROM_TOOLBAR_TO_INVENTORY := [rejectAll])"
      "''t-0''" "''i-1''" None ?w]
  have move: "\<exists>t. processItemMovement exampleCollab
           (ITEM_RULES(FROM_TOOLBAR_TO_INVENTORY := [rejectAll])) ''t-0'' ''i-1'' None ?w
         = Returns ?w t \<and> collaboratorCalls t = [RemoveAllWeapons, SyncInventory]"
    by (simp only: if_True simp_thms)
  from d
    rule_rejection_aborts [of FROM_TOOLBAR_TO_GROUND "Some ?it"
      "Some 0" "Some (- 1)" exampleCollab "ITEM_RULES(FROM_TOOLBAR_TO_GROUND := [rejectAll])"
      "''t-0''" "''i-1''" None ?w]
  have drop: "\<exists>t. handleDropGround exampleCollab
           (ITEM_RULES(FROM_TOOLBAR_TO_GROUND := [rejectAll])) ''t-0'' ?w
         = Returns ?w t \<and> collaboratorCalls t = [SyncInventory]"
    by blast
  from m d move drop show ?thesis by blast
qed

text \<open>
  Claim C2 as stated fails: a move from \<^verbatim>\<open>t-0\<close> to \<^verbatim>\<open>i-0\<close> that the rule for toolbar to
  inventory rejects has called \<^verbatim>\<open>removeAllWeapons\<close> before it resynchronises.
\<close>

theorem rejected_toolbar_move_clears_weapons:
  "processItemMovement exampleCollab
      (ITEM_RULES(FROM_TOOLBAR_TO_INVENTORY := [rejectAll]))
      ''t-0'' ''i-0'' None
      \<lparr>player = examplePlayer [] [] [Some (exampleItem ''knife'' 0 1 {})], GROUND_ITEMS = []\<rparr>
   = Returns
      \<lparr>player = examplePlayer [] [] [Some (exampleItem ''knife'' 0 1 {})], GROUND_ITEMS = []\<rparr>
      [RemoveAllWeapons,
       VerifyRules FROM_TOOLBAR_TO_INVENTORY (Some (exampleItem ''knife'' 0 1 {})) (Some 0) (Some 0)
         False,
       SyncInventory]"
  by (simp add: eval_defs example_defs)

section \<open>Pickup from the ground\<close>

text \<open>
  Claim C4: a pickup should consult the rule from the ground to the kind of the destination
  and abort when it rejects. The code maps a destination whose abbreviation includes
  \<^verbatim>\<open>SLOT_TYPE.GROUND\<close> to \<^verbatim>\<open>FROM_GROUND_TO_EQUIPMENT\<close>, so for an equipment slot no rule
  is chosen and none is verified. Evaluated here: a pickup of a hat (an equipment item of
  kind 3 that fits the player) into \<^verbatim>\<open>e-3\<close>, with a rule that rejects everything
  registered for ground to equipment. No verification is recorded, the item leaves
  \<^verbatim>\<open>GROUND_ITEMS\<close> and is equipped.
\<close>

theorem pickup_to_equipment_skips_rule:
  "processItemMovement exampleCollab
      (ITEM_RULES(FROM_GROUND_TO_EQUIPMENT := [rejectAll]))
      ''g-0'' ''e-3'' (Some ''token'')
      \<lparr>player = examplePlayer [] [] [],
       GROUND_ITEMS =
         [\<lparr>gridSpace = 0,
           item = (exampleItem ''hat'' 0 1 {IS_EQUIPMENT})
                    \<lparr>equipment := Some 3, hash := Some ''token'', data_sex := Some 0\<rparr>,
           position = origin, dimension = 0\<rparr>]\<rparr>
   = Returns
      \<lparr>player = examplePlayer []
          [Some ((exampleItem ''hat'' 3 1 {IS_EQUIPMENT})
                   \<lparr>equipment := Some 3, hash := Some ''token'', data_sex := Some 0\<rparr>)] [],
       GROUND_ITEMS = []\<rparr>
      [SaveField EQUIPMENT
         (Some [Some ((exampleItem ''hat'' 3 1 {IS_EQUIPMENT})
                        \<lparr>equipment := Some 3, hash := Some ''token'', data_sex := Some 0\<rparr>)]),
       SyncInventory, Sound2D ''item_shuffle_1'',
       Animation ''random@mugging4'' ''pickup_low'' 33 1200,
       ObjectRemove ''token'', ItemRemove ''token'']"
  by (simp add: eval_defs example_defs)





lemma distance2d_below:
  assumes "(vec_x a - vec_x b)\<^sup>2 + (vec_y a - vec_y b)\<^sup>2 < 10\<^sup>2"
  shows "distance2d a b < 10"
proof -
  have "sqrt ((vec_x a - vec_x b)\<^sup>2 + (vec_y a - vec_y b)\<^sup>2) < sqrt (10\<^sup>2)"
    using assms by (simp only: real_sqrt_less_iff)
  then show ?thesis by (simp add: distance2d_def)
qed

text \<open>
  Claim C10: the distance of the pickup check is computed from the x and y components
  alone. For a player at \<open>(x1, y1, z1)\<close> and a dropped item at \<open>(x2, y2, z2)\<close> whose
  horizontal distance is below 10, whatever \<open>z1\<close> and \<open>z2\<close> are, the distance compared is
  \<open>sqrt ((x1 - x2)\<^sup>2 + (y1 - y2)\<^sup>2)\<close>, it is below 10, and a pickup that meets the other
  preconditions goes on to take the dropped item out of \<^verbatim>\<open>GROUND_ITEMS\<close>.
\<close>

theorem pickup_distance_is_horizontal:
  assumes on_foot: "\<not> vehicle (player w)"
    and free: "emptyCheck endData = Some isFree" "isFree (player w) endSlotIndex"
    and token: "truthy h" "findIndex (\<lambda>gItem. hash (item gItem) = h) (GROUND_ITEMS w) = Some i"
    and actor: "pos (player w) = \<lparr>vec_x = x1, vec_y = y1, vec_z = z1\<rparr>"
    and dropped: "position (GROUND_ITEMS w ! i) = \<lparr>vec_x = x2, vec_y = y2, vec_z = z2\<rparr>"
    and near: "(x1 - x2)\<^sup>2 + (y1 - y2)\<^sup>2 < 10\<^sup>2"
    and placement: "allItemRulesValid K (item (GROUND_ITEMS w ! i)) (name endData) endSlotIndex"
    and rule_passes: "verifyOptional rules (pickupDataType endData)
                        (Some (item (GROUND_ITEMS w ! i)))
                        (Some (gridSpace (GROUND_ITEMS w ! i))) (Some (- 1))"
    and restriction: "\<not> (isFlagEnabled (behavior (item (GROUND_ITEMS w ! i))) IS_EQUIPMENT
                         \<and> name endData = EQUIPMENT
                         \<and> data_sex (item (GROUND_ITEMS w ! i))
                             \<noteq> Some (appearance_sex (player w)))"
  shows "distance2d (pos (player w)) (position (GROUND_ITEMS w ! i))
           = sqrt ((x1 - x2)\<^sup>2 + (y1 - y2)\<^sup>2)
       \<and> distance2d (pos (player w)) (position (GROUND_ITEMS w ! i)) < 10
       \<and> GROUND_ITEMS (world_of (handlePickupGround K rules endData endSlotIndex h w))
           = take i (GROUND_ITEMS w) @ drop (Suc i) (GROUND_ITEMS w)"
proof -
  have d: "distance2d (pos (player w)) (position (GROUND_ITEMS w ! i))
             = sqrt ((x1 - x2)\<^sup>2 + (y1 - y2)\<^sup>2)"
    by (simp add: distance2d_def actor dropped)
  have lt: "distance2d (pos (player w)) (position (GROUND_ITEMS w ! i)) < 10"
    using near by (intro distance2d_below) (simp add: actor dropped)
  from findIndex_Some [OF token(2)] have len: "i < length (GROUND_ITEMS w)" by simp
  then have nonempty: "take (Suc 0) (drop i (GROUND_ITEMS w)) \<noteq> []" by simp
  have "GROUND_ITEMS (world_of (handlePickupGround K rules endData endSlotIndex h w))
           = take i (GROUND_ITEMS w) @ drop (Suc i) (GROUND_ITEMS w)"
    using on_foot free token lt placement rule_passes restriction nonempty len
    unfolding handlePickupGround_def Let_def
    by (auto split: option.split prod.split)
  with d lt show ?thesis by simp
qed


text \<open>
  The theorem for a player at the origin and a dropped item at \<open>(3, 4, 1000)\<close>: the distance
  compared is 5, and the item leaves the ground.
\<close>

theorem pickup_distance_is_horizontal_witness:
  "\<not> vehicle (player \<lparr>player = examplePlayer [] [] [],
        GROUND_ITEMS = [\<lparr>gridSpace = 0, item = (exampleItem ''hat'' 0 1 {})\<lparr>hash := Some ''token''\<rparr>,
                         position = \<lparr>vec_x = 3, vec_y = 4, vec_z = 1000\<rparr>, dimension = 0\<rparr>]\<rparr>)
   \<and> emptyCheck (inventoryData exampleCollab) = Some isInventorySlotFree
   \<and> isInventorySlotFree (examplePlayer [] [] []) (Some 0)
   \<and> truthy (Some ''token'')
   \<and> findIndex (\<lambda>gItem. hash (item gItem) = Some ''token'')
        [\<lparr>gridSpace = 0, item = (exampleItem ''hat'' 0 1 {})\<lparr>hash := Some ''token''\<rparr>,
          position = \<lparr>vec_x = 3, vec_y = 4, vec_z = 1000\<rparr>, dimension = 0\<rparr>] = Some 0
   \<and> pos (examplePlayer [] [] []) = \<lparr>vec_x = 0, vec_y = 0, vec_z = 0\<rparr>
   \<and> ((0::real) - 3)\<^sup>2 + (0 - 4)\<^sup>2 < 10\<^sup>2
   \<and> distance2d (pos (examplePlayer [] [] [])) \<lparr>vec_x = 3, vec_y = 4, vec_z = 1000\<rparr> < 10
   \<and> GROUND_ITEMS (world_of (handlePickupGround exampleCollab ITEM_RULES
         (inventoryData exampleCollab) (Some 0) (Some ''token'')
         \<lparr>player = examplePlayer [] [] [],
          GROUND_ITEMS = [\<lparr>gridSpace = 0, item = (exampleItem ''hat'' 0 1 {})\<lparr>hash := Some ''token''\<rparr>,
                           position = \<lparr>vec_x = 3, vec_y = 4, vec_z = 1000\<rparr>, dimension = 0\<rparr>]\<rparr>))
       = []"
proof -
  let ?d = "\<lparr>gridSpace = 0, item = (exampleItem ''hat'' 0 1 {})\<lparr>hash := Some ''token''\<rparr>,
             position = \<lparr>vec_x = 3, vec_y = 4, vec_z = 1000\<rparr>, dimension = 0\<rparr>"
  let ?w = "\<lparr>player = examplePlayer [] [] [], GROUND_ITEMS = [?d]\<rparr>"
  have foot: "\<not> vehicle (player ?w)" by (simp add: examplePlayer_def)
  have ec: "emptyCheck (inventoryData exampleCollab) = Some isInventorySlotFree"
    by (simp add: inventoryData_def)
  have free: "isInventorySlotFree (player ?w) (Some 0)"
    by (simp add: isInventorySlotFree_def isSlotFree_def examplePlayer_def)
  have tok: "truthy (Some ''token'')" by (simp add: truthy_def)
  have idx: "findIndex (\<lambda>gItem. hash (item gItem) = Some ''token'') (GROUND_ITEMS ?w) = Some 0"
    by (simp add: exampleItem_def)
  have actor: "pos (player ?w) = \<lparr>vec_x = 0, vec_y = 0, vec_z = 0\<rparr>"
    by (simp add: examplePlayer_def origin_def)
  have dropped: "position (GROUND_ITEMS ?w ! 0) = \<lparr>vec_x = 3, vec_y = 4, vec_z = 1000\<rparr>"
    by simp
  have near: "((0::real) - 3)\<^sup>2 + (0 - 4)\<^sup>2 < 10\<^sup>2" by simp
  have placement: "allItemRulesValid exampleCollab (item (GROUND_ITEMS ?w ! 0))
                     (name (inventoryData exampleCollab)) (Some 0)"
    by (simp add: exampleCollab_def acceptAll_def)
  have passes: "verifyOptional ITEM_RULES (pickupDataType (inventoryData exampleCollab))
                  (Some (item (GROUND_ITEMS ?w ! 0)))
                  (Some (gridSpace (GROUND_ITEMS ?w ! 0))) (Some (- 1))"
    by (simp add: verifyOptional_def verifyRules_def ITEM_RULES_def split: option.split)
  have restriction: "\<not> (isFlagEnabled (behavior (item (GROUND_ITEMS ?w ! 0))) IS_EQUIPMENT
                         \<and> name (inventoryData exampleCollab) = EQUIPMENT
                         \<and> data_sex (item (GROUND_ITEMS ?w ! 0))
                             \<noteq> Some (appearance_sex (player ?w)))"
    by (simp add: inventoryData_def)
  from pickup_distance_is_horizontal
         [OF foot ec free tok idx actor dropped near placement passes restriction]
  have "distance2d (pos (player ?w)) (position (GROUND_ITEMS ?w ! 0)) < 10"
    and "GROUND_ITEMS (world_of (handlePickupGround exampleCollab ITEM_RULES
           (inventoryData exampleCollab) (Some 0) (Some ''token'') ?w))
         = take 0 (GROUND_ITEMS ?w) @ drop (Suc 0) (GROUND_ITEMS ?w)"
    by simp_all
  with foot ec free tok idx actor near show ?thesis by simp
qed

section \<open>Drop of an item that is destroyed on drop\<close>

text \<open>
  Claim C9: a drop that passes the preconditions (the player is on foot, the slot holds an
  item that may be dropped, the placement policy and the ground-bound rule accept it) of an
  item flagged destroyed-on-drop removes the item's entry from its source container, saves
  that container, and leaves \<^verbatim>\<open>GROUND_ITEMS\<close> and the other containers as they were; its
  calls to collaborators are the save, the resynchronisation, the sound, the animation and
  the message: no streamer is called and no drop event is emitted.
\<close>

theorem destroyed_on_drop_leaves_no_ground_record:
  assumes found: "findData K selectedSlot = Some selectData"
    and container: "data_of (name selectData) (player w) = Some c"
    and held: "readItem c (stripCategory selectedSlot) = Some it"
    and destroyed: "isFlagEnabled (behavior it) DESTROY_ON_DROP"
    and on_foot: "\<not> vehicle (player w)"
    and droppable: "isFlagEnabled (behavior it) CAN_DROP"
    and placement: "allItemRulesValid K it GROUND None"
    and rule_passes: "verifyOptional rules (dropDataType selectData) (Some it)
                        (stripCategory selectedSlot) (Some (- 1))"
  shows "\<exists>w' t i. handleDropGround K rules selectedSlot w = Returns w' t
           \<and> GROUND_ITEMS w' = GROUND_ITEMS w
           \<and> i < length c \<and> c ! i = Some it
           \<and> data_of (name selectData) (player w') = Some (take i c @ drop (Suc i) c)
           \<and> (\<forall>n. n \<noteq> name selectData \<longrightarrow> data_of n (player w') = data_of n (player w))
           \<and> collaboratorCalls t =
               [SaveField (name selectData) (Some (take i c @ drop (Suc i) c)),
                SyncInventory, Sound2D ''item_drop_1'',
                Animation ''random@mugging4'' ''pickup_low'' 33 1200,
                Message (itemName it @ '' was destroyed on drop.'')]"
proof -
  from readItem_Some [OF held] obtain i where
    i: "findIndex (holdsSlot (stripCategory selectedSlot)) c = Some i"
    and len: "i < length c" and at: "c ! i = Some it"
    and s: "stripCategory selectedSlot = Some (slot it)" by blast
  from i s have rm: "removeAt c (Some (slot it)) = (True, take i c @ drop (Suc i) c)"
    by (simp add: removeAt_def)
  from owned_data [OF found container] show ?thesis
  proof (elim disjE conjE)
    assume sd: "selectData = inventoryData K" and c: "c = data_inventory (player w)"
    have "handleDropGround K rules selectedSlot w =
       Returns (w\<lparr>player := (player w)\<lparr>data_inventory := take i c @ drop (Suc i) c\<rparr>\<rparr>)
         (verifyLog (dropDataType selectData) (Some it) (stripCategory selectedSlot)
            (Some (- 1)) True @
          [SaveField INVENTORY (Some (take i c @ drop (Suc i) c)),
           SyncInventory, Sound2D ''item_drop_1'',
           Animation ''random@mugging4'' ''pickup_low'' 33 1200,
           Message (itemName it @ '' was destroyed on drop.'')])"
      using found held destroyed on_foot droppable placement rule_passes rm
        data_of_hasData [OF container]
      unfolding handleDropGround_def sd c
      by (simp add: Let_def inventoryData_def adapter_defs data_of_def)
    with len at sd c data_of_hasData [OF container] show ?thesis
      by (auto simp: inventoryData_def data_of_def split: INVENTORY_TYPE.split)
  next
    assume sd: "selectData = toolbarData K" and c: "c = data_toolbar (player w)"
    have "handleDropGround K rules selectedSlot w =
       Returns (w\<lparr>player := (player w)\<lparr>data_toolbar := take i c @ drop (Suc i) c\<rparr>\<rparr>)
         (verifyLog (dropDataType selectData) (Some it) (stripCategory selectedSlot)
            (Some (- 1)) True @
          [SaveField TOOLBAR (Some (take i c @ drop (Suc i) c)),
           SyncInventory, Sound2D ''item_drop_1'',
           Animation ''random@mugging4'' ''pickup_low'' 33 1200,
           Message (itemName it @ '' was destroyed on drop.'')])"
      using found held destroyed on_foot droppable placement rule_passes rm
        data_of_hasData [OF container]
      unfolding handleDropGround_def sd c
      by (simp add: Let_def toolbarData_def adapter_defs data_of_def)
    with len at sd c data_of_hasData [OF container] show ?thesis
      by (auto simp: toolbarData_def data_of_def split: INVENTORY_TYPE.split)
  next
    assume sd: "selectData = equipmentData K" and c: "c = data_equipment (player w)"
    have "handleDropGround K rules selectedSlot w =
       Returns (w\<lparr>player := (player w)\<lparr>data_equipment := take i c @ drop (Suc i) c\<rparr>\<rparr>)
         (verifyLog (dropDataType selectData) (Some it) (stripCategory selectedSlot)
            (Some (- 1)) True @
          [SaveField EQUIPMENT (Some (take i c @ drop (Suc i) c)),
           SyncInventory, Sound2D ''item_drop_1'',
           Animation ''random@mugging4'' ''pickup_low'' 33 1200,
           Message (itemName it @ '' was destroyed on drop.'')])"
      using found held destroyed on_foot droppable placement rule_passes rm
        data_of_hasData [OF container]
      unfolding handleDropGround_def sd c
      by (simp add: Let_def equipmentData_def adapter_defs data_of_def)
    with len at sd c data_of_hasData [OF container] show ?thesis
      by (auto simp: equipmentData_def data_of_def split: INVENTORY_TYPE.split)
  qed
qed


text \<open>
  The theorem for a flare of quantity 3 in \<^verbatim>\<open>i-2\<close> that may be dropped and is destroyed
  on drop.
\<close>

theorem destroyed_on_drop_witness:
  "findData exampleCollab ''i-2'' = Some (inventoryData exampleCollab)
   \<and> data_of (name (inventoryData exampleCollab))
        (player \<lparr>player = examplePlayer
                   [Some (exampleItem ''flare'' 2 3 {CAN_DROP, DESTROY_ON_DROP})] [] [],
                 GROUND_ITEMS = []\<rparr>)
       = Some [Some (exampleItem ''flare'' 2 3 {CAN_DROP, DESTROY_ON_DROP})]
   \<and> readItem [Some (exampleItem ''flare'' 2 3 {CAN_DROP, DESTROY_ON_DROP})] (stripCategory ''i-2'')
       = Some (exampleItem ''flare'' 2 3 {CAN_DROP, DESTROY_ON_DROP})
   \<and> isFlagEnabled (behavior (exampleItem ''flare'' 2 3 {CAN_DROP, DESTROY_ON_DROP})) DESTROY_ON_DROP
   \<and> \<not> vehicle (player \<lparr>player = examplePlayer
                   [Some (exampleItem ''flare'' 2 3 {CAN_DROP, DESTROY_ON_DROP})] [] [],
                 GROUND_ITEMS = []\<rparr>)
   \<and> isFlagEnabled (behavior (exampleItem ''flare'' 2 3 {CAN_DROP, DESTROY_ON_DROP})) CAN_DROP
   \<and> allItemRulesValid exampleCollab (exampleItem ''flare'' 2 3 {CAN_DROP, DESTROY_ON_DROP})
        GROUND None
   \<and> verifyOptional ITEM_RULES (dropDataType (inventoryData exampleCollab))
        (Some (exampleItem ''flare'' 2 3 {CAN_DROP, DESTROY_ON_DROP}))
        (stripCategory ''i-2'') (Some (- 1))
   \<and> (\<exists>w' t i.
        handleDropGround exampleCollab ITEM_RULES ''i-2''
          \<lparr>player = examplePlayer
             [Some (exampleItem ''flare'' 2 3 {CAN_DROP, DESTROY_ON_DROP})] [] [],
           GROUND_ITEMS = []\<rparr> = Returns w' t
        \<and> GROUND_ITEMS w' = []
        \<and> i < length [Some (exampleItem ''flare'' 2 3 {CAN_DROP, DESTROY_ON_DROP})]
        \<and> data_of INVENTORY (player w') = Some []
        \<and> collaboratorCalls t =
             [SaveField INVENTORY (Some []), SyncInventory, Sound2D ''item_drop_1'',
              Animation ''random@mugging4'' ''pickup_low'' 33 1200,
              Message ''flare was destroyed on drop.''])"
proof -
  let ?it = "exampleItem ''flare'' 2 3 {CAN_DROP, DESTROY_ON_DROP}"
  let ?w = "\<lparr>player = examplePlayer [Some ?it] [] [], GROUND_ITEMS = []\<rparr>"
  have found: "findData exampleCollab ''i-2'' = Some (inventoryData exampleCollab)"
    by (simp add: findData_def DataHelpers_defs SLOT_TYPE_defs)
  have container: "data_of (name (inventoryData exampleCollab)) (player ?w) = Some [Some ?it]"
    by (simp add: data_of_def inventoryData_def examplePlayer_def)
  have held: "readItem [Some ?it] (stripCategory ''i-2'') = Some ?it"
    by (simp add: readItem_def holdsSlot_def stripCategory_def digitValue_def exampleItem_def)
  have flags: "isFlagEnabled (behavior ?it) DESTROY_ON_DROP" "isFlagEnabled (behavior ?it) CAN_DROP"
    by (simp_all add: isFlagEnabled_def exampleItem_def)
  have foot: "\<not> vehicle (player ?w)" by (simp add: examplePlayer_def)
  have placement: "allItemRulesValid exampleCollab ?it GROUND None"
    by (simp add: exampleCollab_def acceptAll_def)
  have passes: "verifyOptional ITEM_RULES (dropDataType (inventoryData exampleCollab)) (Some ?it)
                  (stripCategory ''i-2'') (Some (- 1))"
    by (simp add: verifyOptional_def verifyRules_def ITEM_RULES_def split: option.split)
  from destroyed_on_drop_leaves_no_ground_record
         [OF found container held flags(1) foot flags(2) placement passes]
  obtain w' t i where out: "handleDropGround exampleCollab ITEM_RULES ''i-2'' ?w = Returns w' t"
    and ground: "GROUND_ITEMS w' = GROUND_ITEMS ?w"
    and i: "i < length [Some ?it]"
    and inv: "data_of (name (inventoryData exampleCollab)) (player w')
                = Some (take i [Some ?it] @ drop (Suc i) [Some ?it])"
    and calls: "collaboratorCalls t =
               [SaveField (name (inventoryData exampleCollab))
                  (Some (take i [Some ?it] @ drop (Suc i) [Some ?it])),
                SyncInventory, Sound2D ''item_drop_1'',
                Animation ''random@mugging4'' ''pickup_low'' 33 1200,
                Message (itemName ?it @ '' was destroyed on drop.'')]"
    by blast
  from i have i0: "i = 0" by simp
  have nm: "name (inventoryData exampleCollab) = INVENTORY" by (simp add: inventoryData_def)
  have msg: "itemName ?it @ '' was destroyed on drop.'' = ''flare was destroyed on drop.''"
    by (simp add: exampleItem_def)
  have concl: "\<exists>w' t i.
        handleDropGround exampleCollab ITEM_RULES ''i-2'' ?w = Returns w' t
        \<and> GROUND_ITEMS w' = []
        \<and> i < length [Some ?it]
        \<and> data_of INVENTORY (player w') = Some []
        \<and> collaboratorCalls t =
             [SaveField INVENTORY (Some []), SyncInventory, Sound2D ''item_drop_1'',
              Animation ''random@mugging4'' ''pickup_low'' 33 1200,
              Message ''flare was destroyed on drop.'']"
    using out ground i inv calls unfolding i0 nm msg by (intro exI [of _ w'] exI [of _ t] exI [of _ 0]) simp
  from found container held flags foot placement passes concl show ?thesis by blast
qed

section \<open>Use of a consumable\<close>

text \<open>
  Claim C8: using a consumable should decrement the quantity of the item in the slot used
  and remove it from that slot at zero. The code looks the item up in the container of the
  slot, but decrements and removes in Personal Storage only. Evaluated here: an apple of
  quantity 1 in \<^verbatim>\<open>t-0\<close> and a key in \<^verbatim>\<open>i-0\<close>. After the use of \<^verbatim>\<open>t-0\<close> the apple is
  still in the toolbar with quantity 1, and the key is gone from Personal Storage.
\<close>

theorem use_from_toolbar_consumes_inventory:
  "processUse exampleCollab ''t-0''
      \<lparr>player = examplePlayer [Some (exampleItem ''key'' 0 1 {})] []
                  [Some (exampleItem ''apple'' 0 1 {CONSUMABLE})],
       GROUND_ITEMS = []\<rparr>
   = Returns
      \<lparr>player = examplePlayer [] [] [Some (exampleItem ''apple'' 0 1 {CONSUMABLE})],
       GROUND_ITEMS = []\<rparr>
      [SaveField INVENTORY (Some []), SyncInventory]"
  by (simp add: eval_defs example_defs)

text \<open>
  For a player with data and a slot of Personal Storage the use does consume in place: the entry of the item is
  deleted when its quantity was 1 and otherwise keeps its index with the quantity
  decreased by one, the container is saved and resynchronised, and an item whose payload
  names an event is emitted under that name with the slot number, followed by a sound.
\<close>

lemma use_consumable_in_inventory:
  assumes has_data: "hasData (player w)"
    and slot_type: "getSlotType K usedSlot = Some INVENTORY"
    and held: "readItem (data_inventory (player w)) (stripCategory usedSlot) = Some it"
    and plain: "equipment it = None"
    and consumable: "isFlagEnabled (behavior it) CONSUMABLE"
    and consumed: "\<not> isFlagEnabled (behavior it) SKIP_CONSUMABLE"
  shows "\<exists>i left.
           i < length (data_inventory (player w)) \<and> data_inventory (player w) ! i = Some it
           \<and> left = (if quantity it - 1 \<le> 0
                      then take i (data_inventory (player w))
                           @ drop (Suc i) (data_inventory (player w))
                      else (data_inventory (player w))
                             [i := Some (it\<lparr>quantity := quantity it - 1\<rparr>)])
           \<and> processUse K usedSlot w =
               Returns (w\<lparr>player := (player w)\<lparr>data_inventory := left\<rparr>\<rparr>)
                 ([SaveField INVENTORY (Some left), SyncInventory]
                  @ (if truthy (data_event it)
                     then [AltEmit (stringOf (data_event it))
                             (it\<lparr>quantity := quantity it - 1\<rparr>) (stripCategory usedSlot),
                           Sound2D ''item_use'']
                     else []))"
proof -
  let ?inv = "data_inventory (player w)"
  from readItem_Some [OF held] obtain i where
    i: "findIndex (holdsSlot (stripCategory usedSlot)) ?inv = Some i"
    and len: "i < length ?inv" and at: "?inv ! i = Some it"
    and s: "stripCategory usedSlot = Some (slot it)" by blast
  from s have named: "usedSlot \<noteq> []" by (auto simp: stripCategory_def)
  from i s have i': "findIndex (holdsSlot (Some (slot it))) ?inv = Some i" by simp
  have "processUse K usedSlot w =
      Returns (w\<lparr>player := (player w)\<lparr>data_inventory :=
                 (if quantity it - 1 \<le> 0 then take i ?inv @ drop (Suc i) ?inv
                  else ?inv[i := Some (it\<lparr>quantity := quantity it - 1\<rparr>)])\<rparr>\<rparr>)
        ([SaveField INVENTORY
            (Some (if quantity it - 1 \<le> 0 then take i ?inv @ drop (Suc i) ?inv
                   else ?inv[i := Some (it\<lparr>quantity := quantity it - 1\<rparr>)])),
          SyncInventory]
         @ (if truthy (data_event it)
            then [AltEmit (stringOf (data_event it))
                    (it\<lparr>quantity := quantity it - 1\<rparr>) (stripCategory usedSlot),
                  Sound2D ''item_use'']
            else []))"
    using has_data slot_type held plain consumable consumed named i' s
    by (simp add: processUse_def Let_def data_of_def inventoryRemove_def removeAt_def
        replaceInventoryItem_def)
  with len at show ?thesis by blast
qed

section \<open>Splitting a stack\<close>

lemma holdsSlot_at:
  "findIndex (holdsSlot s) c = Some i \<Longrightarrow>
     i < length c \<and> (\<exists>it. c ! i = Some it \<and> Some (slot it) = s)"
  by (drule findIndex_Some) (auto simp: holdsSlot_def split: option.splits)

lemma readItem_findIndex:
  "readItem c s = (case findIndex (holdsSlot s) c of None \<Rightarrow> None | Some i \<Rightarrow> c ! i)"
  by (simp add: readItem_def find_findIndex split: option.split)

lemma isSlotFree_iff: "isSlotFree c s \<longleftrightarrow> (\<forall>e \<in> set c. \<not> holdsSlot s e)"
  by (auto simp: isSlotFree_def find_None_iff)

lemma isSlotFree_requantify:
  assumes "i < length c" "c ! i = Some it"
  shows "isSlotFree (c[i := Some (it\<lparr>quantity := q\<rparr>)]) s = isSlotFree c s"
proof -
  have h: "holdsSlot s (Some (it\<lparr>quantity := q\<rparr>)) = holdsSlot s (c ! i)"
    using assms by (simp add: holdsSlot_def)
  have "(\<exists>j < length c. holdsSlot s (c[i := Some (it\<lparr>quantity := q\<rparr>)] ! j))
      = (\<exists>j < length c. holdsSlot s (c ! j))"
    using assms(1) h by (metis nth_list_update_eq nth_list_update_neq)
  then show ?thesis
    by (simp add: isSlotFree_iff Ball_def in_set_conv_nth) (metis length_list_update)
qed

lemma getFreeInventorySlot_Some:
  assumes "getFreeInventorySlot K p = Some f"
  shows "isSlotFree (data_inventory p) (Some f) \<and> 0 \<le> f \<and> f < int (maxSlots K INVENTORY)"
proof -
  from assms obtain n where n: "find (\<lambda>n. isInventorySlotFree p (Some (int n)))
      [0 ..< maxSlots K INVENTORY] = Some n" and f: "f = int n"
    by (auto simp: getFreeInventorySlot_def)
  from n have "isInventorySlotFree p (Some (int n))" and "n \<in> set [0 ..< maxSlots K INVENTORY]"
    by (auto simp: find_Some_iff)
  with f show ?thesis by (simp add: isInventorySlotFree_def)
qed

lemma processSplit_accepts:
  assumes dat: "hasData (player w)"
    and pre: "includesStr s ''i-''"
    and held: "readItem (data_inventory (player w)) (stripCategory s) = Some src"
    and n: "0 < n" "n < quantity src"
    and free: "getFreeInventorySlot K (player w) = Some free"
  shows "\<exists>idx. findIndex (holdsSlot (stripCategory s)) (data_inventory (player w)) = Some idx
           \<and> idx < length (data_inventory (player w))
           \<and> data_inventory (player w) ! idx = Some src
           \<and> isInventorySlotFree (player w) (Some free) \<and> free \<noteq> slot src
           \<and> processSplit K (Some s) (Some n) w =
             Returns
               (w\<lparr>player := (player w)\<lparr>data_inventory :=
                    (data_inventory (player w))[idx := Some (src\<lparr>quantity := quantity src - n\<rparr>)]
                    @ [Some (src\<lparr>quantity := n, slot := free\<rparr>)]\<rparr>\<rparr>)
               [SaveField INVENTORY
                  (Some ((data_inventory (player w))
                           [idx := Some (src\<lparr>quantity := quantity src - n\<rparr>)]
                         @ [Some (src\<lparr>quantity := n, slot := free\<rparr>)])),
                SyncInventory]"
proof -
  let ?inv = "data_inventory (player w)"
  from readItem_Some [OF held] obtain idx where
    idx: "findIndex (holdsSlot (stripCategory s)) ?inv = Some idx"
    and len: "idx < length ?inv" and src: "?inv ! idx = Some src" by blast
  from getFreeInventorySlot_Some [OF free]
  have isfree: "isSlotFree ?inv (Some free)" and range: "0 \<le> free"
    "free < int (maxSlots K INVENTORY)" by simp_all
  from isfree len src have ne: "free \<noteq> slot src"
    by (auto simp: isSlotFree_iff holdsSlot_def dest!: bspec [OF _ nth_mem [OF len]])
  have add: "inventoryAdd K
       ((player w)\<lparr>data_inventory := ?inv[idx := Some (src\<lparr>quantity := quantity src - n\<rparr>)]\<rparr>)
       (src\<lparr>quantity := n\<rparr>) (Some free)
     = (True, (player w)\<lparr>data_inventory :=
                ?inv[idx := Some (src\<lparr>quantity := quantity src - n\<rparr>)]
                @ [Some (src\<lparr>quantity := n, slot := free\<rparr>)]\<rparr>)"
    using isfree range isSlotFree_requantify [OF len src]
    by (simp add: inventoryAdd_def insertAt_def)
  have "processSplit K (Some s) (Some n) w =
             Returns
               (w\<lparr>player := (player w)\<lparr>data_inventory :=
                    ?inv[idx := Some (src\<lparr>quantity := quantity src - n\<rparr>)]
                    @ [Some (src\<lparr>quantity := n, slot := free\<rparr>)]\<rparr>\<rparr>)
               [SaveField INVENTORY
                  (Some (?inv
                           [idx := Some (src\<lparr>quantity := quantity src - n\<rparr>)]
                         @ [Some (src\<lparr>quantity := n, slot := free\<rparr>)])),
                SyncInventory]"
    using dat n pre idx free src add by (simp add: processSplit_def Let_def)
  with idx len src isfree ne show ?thesis
    by (simp add: isInventorySlotFree_def)
qed

text \<open>
  Claim C7. For a player with data, a split of a slot identifier with the prefix of Personal
  Storage whose slot holds an item there, by a positive amount strictly below the item's
  quantity, with a free slot of Personal Storage, is performed: the source's entry keeps its
  place with the quantity decreased by the amount, a copy with the amount as its quantity is
  appended in the free slot, which differs from the source's slot, and the container is
  saved and resynchronised. Only such a request is performed: a split that returns and does
  anything but resynchronise meets these conditions and has this result. An amount equal to
  or above the quantity of the item in the slot is rejected: the world is unchanged and the
  only call is the resynchronisation.
\<close>

theorem split_spec:
  "(hasData (player w) \<and> includesStr s ''i-''
      \<and> readItem (data_inventory (player w)) (stripCategory s) = Some src
      \<and> 0 < n \<and> n < quantity src
      \<and> getFreeInventorySlot K (player w) = Some free \<longrightarrow>
      (\<exists>idx. findIndex (holdsSlot (stripCategory s)) (data_inventory (player w)) = Some idx
         \<and> data_inventory (player w) ! idx = Some src
         \<and> isInventorySlotFree (player w) (Some free) \<and> free \<noteq> slot src
         \<and> processSplit K (Some s) (Some n) w =
             Returns
               (w\<lparr>player := (player w)\<lparr>data_inventory :=
                    (data_inventory (player w))[idx := Some (src\<lparr>quantity := quantity src - n\<rparr>)]
                    @ [Some (src\<lparr>quantity := n, slot := free\<rparr>)]\<rparr>\<rparr>)
               [SaveField INVENTORY
                  (Some ((data_inventory (player w))
                           [idx := Some (src\<lparr>quantity := quantity src - n\<rparr>)]
                         @ [Some (src\<lparr>quantity := n, slot := free\<rparr>)])),
                SyncInventory]))
   \<and> (processSplit K selectedSlot amount w \<noteq> Returns w [SyncInventory]
      \<and> processSplit K selectedSlot amount w \<noteq> Throws w [] \<longrightarrow>
      (\<exists>s n idx src free.
         selectedSlot = Some s \<and> hasData (player w)
         \<and> amount = Some n \<and> 0 < n \<and> includesStr s ''i-''
         \<and> findIndex (holdsSlot (stripCategory s)) (data_inventory (player w)) = Some idx
         \<and> data_inventory (player w) ! idx = Some src
         \<and> Some (slot src) = stripCategory s
         \<and> n < quantity src
         \<and> getFreeInventorySlot K (player w) = Some free
         \<and> isInventorySlotFree (player w) (Some free) \<and> free \<noteq> slot src
         \<and> processSplit K selectedSlot amount w =
             Returns
               (w\<lparr>player := (player w)\<lparr>data_inventory :=
                    (data_inventory (player w))[idx := Some (src\<lparr>quantity := quantity src - n\<rparr>)]
                    @ [Some (src\<lparr>quantity := n, slot := free\<rparr>)]\<rparr>\<rparr>)
               [SaveField INVENTORY
                  (Some ((data_inventory (player w))
                           [idx := Some (src\<lparr>quantity := quantity src - n\<rparr>)]
                         @ [Some (src\<lparr>quantity := n, slot := free\<rparr>)])),
                SyncInventory]))
   \<and> (hasData (player w)
      \<and> readItem (data_inventory (player w)) (stripCategory s) = Some src
      \<and> quantity src \<le> n \<longrightarrow>
      processSplit K (Some s) (Some n) w = Returns w [SyncInventory])"
proof (intro conjI impI)
  assume "hasData (player w) \<and> includesStr s ''i-''
      \<and> readItem (data_inventory (player w)) (stripCategory s) = Some src
      \<and> 0 < n \<and> n < quantity src
      \<and> getFreeInventorySlot K (player w) = Some free"
  then have "\<exists>idx. findIndex (holdsSlot (stripCategory s)) (data_inventory (player w)) = Some idx
           \<and> idx < length (data_inventory (player w))
           \<and> data_inventory (player w) ! idx = Some src
           \<and> isInventorySlotFree (player w) (Some free) \<and> free \<noteq> slot src
           \<and> processSplit K (Some s) (Some n) w =
             Returns
               (w\<lparr>player := (player w)\<lparr>data_inventory :=
                    (data_inventory (player w))[idx := Some (src\<lparr>quantity := quantity src - n\<rparr>)]
                    @ [Some (src\<lparr>quantity := n, slot := free\<rparr>)]\<rparr>\<rparr>)
               [SaveField INVENTORY
                  (Some ((data_inventory (player w))
                           [idx := Some (src\<lparr>quantity := quantity src - n\<rparr>)]
                         @ [Some (src\<lparr>quantity := n, slot := free\<rparr>)])),
                SyncInventory]"
    by (intro processSplit_accepts) simp_all
  then show "\<exists>idx. findIndex (holdsSlot (stripCategory s)) (data_inventory (player w)) = Some idx
         \<and> data_inventory (player w) ! idx = Some src
         \<and> isInventorySlotFree (player w) (Some free) \<and> free \<noteq> slot src
         \<and> processSplit K (Some s) (Some n) w =
             Returns
               (w\<lparr>player := (player w)\<lparr>data_inventory :=
                    (data_inventory (player w))[idx := Some (src\<lparr>quantity := quantity src - n\<rparr>)]
                    @ [Some (src\<lparr>quantity := n, slot := free\<rparr>)]\<rparr>\<rparr>)
               [SaveField INVENTORY
                  (Some ((data_inventory (player w))
                           [idx := Some (src\<lparr>quantity := quantity src - n\<rparr>)]
                         @ [Some (src\<lparr>quantity := n, slot := free\<rparr>)])),
                SyncInventory]"
    by blast
next
  assume "hasData (player w)
      \<and> readItem (data_inventory (player w)) (stripCategory s) = Some src
      \<and> quantity src \<le> n"
  then show "processSplit K (Some s) (Some n) w = Returns w [SyncInventory]"
    by (auto simp: processSplit_def Let_def readItem_findIndex split: option.splits)
next
  let ?inv = "data_inventory (player w)"
  assume "processSplit K selectedSlot amount w \<noteq> Returns w [SyncInventory]
      \<and> processSplit K selectedSlot amount w \<noteq> Throws w []"
  then have acc: "processSplit K selectedSlot amount w \<noteq> Returns w [SyncInventory]"
    and nothrow: "processSplit K selectedSlot amount w \<noteq> Throws w []" by simp_all
  from acc obtain n where n: "amount = Some n" "0 < n"
    by (cases amount) (auto simp: processSplit_def Let_def split: if_splits)
  from nothrow n obtain s where s: "selectedSlot = Some s"
    by (cases selectedSlot) (auto simp: processSplit_def Let_def)
  from acc n s have pre: "includesStr s ''i-''"
    by (auto simp: processSplit_def Let_def split: if_splits)
  from nothrow n s pre have dat: "hasData (player w)"
    by (auto simp: processSplit_def Let_def split: if_splits)
  from acc n s pre dat obtain idx where
    idx: "findIndex (holdsSlot (stripCategory s)) ?inv = Some idx"
    by (cases "findIndex (holdsSlot (stripCategory s)) ?inv")
       (auto simp: processSplit_def Let_def)
  from acc n s pre dat idx obtain free where free: "getFreeInventorySlot K (player w) = Some free"
    by (cases "getFreeInventorySlot K (player w)") (auto simp: processSplit_def Let_def)
  from holdsSlot_at [OF idx] obtain src where len: "idx < length ?inv"
    and src: "?inv ! idx = Some src" and sl: "Some (slot src) = stripCategory s"
    by blast
  from acc n s pre dat idx free src have q: "n < quantity src"
    by (auto simp: processSplit_def Let_def split: if_splits)
  from idx src have held: "readItem ?inv (stripCategory s) = Some src"
    by (simp add: readItem_findIndex)
  from processSplit_accepts [OF dat pre held n(2) q free] idx
  have "isInventorySlotFree (player w) (Some free) \<and> free \<noteq> slot src
           \<and> processSplit K (Some s) (Some n) w =
             Returns
               (w\<lparr>player := (player w)\<lparr>data_inventory :=
                    (data_inventory (player w))[idx := Some (src\<lparr>quantity := quantity src - n\<rparr>)]
                    @ [Some (src\<lparr>quantity := n, slot := free\<rparr>)]\<rparr>\<rparr>)
               [SaveField INVENTORY
                  (Some ((data_inventory (player w))
                           [idx := Some (src\<lparr>quantity := quantity src - n\<rparr>)]
                         @ [Some (src\<lparr>quantity := n, slot := free\<rparr>)])),
                SyncInventory]"
    by auto
  with n s pre dat idx src sl q free
  show "\<exists>s n idx src free.
         selectedSlot = Some s \<and> hasData (player w)
         \<and> amount = Some n \<and> 0 < n \<and> includesStr s ''i-''
         \<and> findIndex (holdsSlot (stripCategory s)) (data_inventory (player w)) = Some idx
         \<and> data_inventory (player w) ! idx = Some src
         \<and> Some (slot src) = stripCategory s
         \<and> n < quantity src
         \<and> getFreeInventorySlot K (player w) = Some free
         \<and> isInventorySlotFree (player w) (Some free) \<and> free \<noteq> slot src
         \<and> processSplit K selectedSlot amount w =
             Returns
               (w\<lparr>player := (player w)\<lparr>data_inventory :=
                    (data_inventory (player w))[idx := Some (src\<lparr>quantity := quantity src - n\<rparr>)]
                    @ [Some (src\<lparr>quantity := n, slot := free\<rparr>)]\<rparr>\<rparr>)
               [SaveField INVENTORY
                  (Some ((data_inventory (player w))
                           [idx := Some (src\<lparr>quantity := quantity src - n\<rparr>)]
                         @ [Some (src\<lparr>quantity := n, slot := free\<rparr>)])),
                SyncInventory]"
    by auto
qed

text \<open>
  The theorem for a stack of 10 in \<^verbatim>\<open>i-0\<close>: split by 4 it leaves 6 in slot 0 and puts 4
  in slot 1; split by 10 or by 11 it is rejected.
\<close>

theorem split_spec_witness:
  "hasData (examplePlayer [Some (exampleItem ''ammo'' 0 10 {})] [] [])
   \<and> includesStr ''i-0'' ''i-''
   \<and> readItem (data_inventory (examplePlayer [Some (exampleItem ''ammo'' 0 10 {})] [] []))
        (stripCategory ''i-0'') = Some (exampleItem ''ammo'' 0 10 {})
   \<and> (0::int) < 4 \<and> 4 < quantity (exampleItem ''ammo'' 0 10 {})
   \<and> getFreeInventorySlot exampleCollab
        (examplePlayer [Some (exampleItem ''ammo'' 0 10 {})] [] []) = Some 1
   \<and> processSplit exampleCollab (Some ''i-0'') (Some 4)
      \<lparr>player = examplePlayer [Some (exampleItem ''ammo'' 0 10 {})] [] [], GROUND_ITEMS = []\<rparr>
     = Returns
         \<lparr>player = examplePlayer
            [Some (exampleItem ''ammo'' 0 6 {}), Some (exampleItem ''ammo'' 1 4 {})] [] [],
          GROUND_ITEMS = []\<rparr>
         [SaveField INVENTORY
            (Some [Some (exampleItem ''ammo'' 0 6 {}), Some (exampleItem ''ammo'' 1 4 {})]),
          SyncInventory]
   \<and> processSplit exampleCollab (Some ''i-0'') (Some 4)
      \<lparr>player = examplePlayer [Some (exampleItem ''ammo'' 0 10 {})] [] [], GROUND_ITEMS = []\<rparr>
     \<noteq> Returns
         \<lparr>player = examplePlayer [Some (exampleItem ''ammo'' 0 10 {})] [] [], GROUND_ITEMS = []\<rparr>
         [SyncInventory]
   \<and> processSplit exampleCollab (Some ''i-0'') (Some 4)
      \<lparr>player = examplePlayer [Some (exampleItem ''ammo'' 0 10 {})] [] [], GROUND_ITEMS = []\<rparr>
     \<noteq> Throws
         \<lparr>player = examplePlayer [Some (exampleItem ''ammo'' 0 10 {})] [] [], GROUND_ITEMS = []\<rparr>
         []
   \<and> quantity (exampleItem ''ammo'' 0 10 {}) \<le> 10
   \<and> quantity (exampleItem ''ammo'' 0 10 {}) \<le> 11
   \<and> processSplit exampleCollab (Some ''i-0'') (Some 10)
      \<lparr>player = examplePlayer [Some (exampleItem ''ammo'' 0 10 {})] [] [], GROUND_ITEMS = []\<rparr>
     = Returns
         \<lparr>player = examplePlayer [Some (exampleItem ''ammo'' 0 10 {})] [] [], GROUND_ITEMS = []\<rparr>
         [SyncInventory]
   \<and> processSplit exampleCollab (Some ''i-0'') (Some 11)
      \<lparr>player = examplePlayer [Some (exampleItem ''ammo'' 0 10 {})] [] [], GROUND_ITEMS = []\<rparr>
     = Returns
         \<lparr>player = examplePlayer [Some (exampleItem ''ammo'' 0 10 {})] [] [], GROUND_ITEMS = []\<rparr>
         [SyncInventory]"
proof -
  let ?it = "exampleItem ''ammo'' 0 10 {}"
  let ?w = "\<lparr>player = examplePlayer [Some ?it] [] [], GROUND_ITEMS = []\<rparr>"
  have dat: "hasData (player ?w)" by (simp add: examplePlayer_def)
  have pre: "includesStr ''i-0'' ''i-''" by simp
  have idx0: "findIndex (holdsSlot (stripCategory ''i-0'')) (data_inventory (player ?w)) = Some 0"
    by (simp add: stripCategory_def digitValue_def holdsSlot_def example_defs)
  have free1: "getFreeInventorySlot exampleCollab (player ?w) = Some 1"
    by (simp add: getFreeInventorySlot_def isInventorySlotFree_def isSlotFree_def holdsSlot_def
        example_defs upt_rec)
  have held: "readItem (data_inventory (player ?w)) (stripCategory ''i-0'') = Some ?it"
    by (simp add: readItem_def stripCategory_def digitValue_def holdsSlot_def example_defs)
  have amt: "(0::int) < 4" "4 < quantity ?it" by (simp_all add: exampleItem_def)
  have q: "quantity ?it \<le> 10" "quantity ?it \<le> 11" by (simp_all add: exampleItem_def)
  from split_spec [of ?w "''i-0''" ?it 4 exampleCollab 1] dat pre held amt free1
  obtain idx where
    "findIndex (holdsSlot (stripCategory ''i-0'')) (data_inventory (player ?w)) = Some idx"
    and res: "processSplit exampleCollab (Some ''i-0'') (Some 4) ?w =
             Returns
               (?w\<lparr>player := (player ?w)\<lparr>data_inventory :=
                    (data_inventory (player ?w))[idx := Some (?it\<lparr>quantity := quantity ?it - 4\<rparr>)]
                    @ [Some (?it\<lparr>quantity := 4, slot := 1\<rparr>)]\<rparr>\<rparr>)
               [SaveField INVENTORY
                  (Some ((data_inventory (player ?w))
                           [idx := Some (?it\<lparr>quantity := quantity ?it - 4\<rparr>)]
                         @ [Some (?it\<lparr>quantity := 4, slot := 1\<rparr>)])),
                SyncInventory]"
    by blast
  with idx0 have v: "idx = 0" by simp
  have split4: "processSplit exampleCollab (Some ''i-0'') (Some 4) ?w
     = Returns
         \<lparr>player = examplePlayer
            [Some (exampleItem ''ammo'' 0 6 {}), Some (exampleItem ''ammo'' 1 4 {})] [] [],
          GROUND_ITEMS = []\<rparr>
         [SaveField INVENTORY
            (Some [Some (exampleItem ''ammo'' 0 6 {}), Some (exampleItem ''ammo'' 1 4 {})]),
          SyncInventory]"
    using res unfolding v by (simp add: example_defs)
  then have accepted: "processSplit exampleCollab (Some ''i-0'') (Some 4) ?w
        \<noteq> Returns ?w [SyncInventory]"
    and returned: "processSplit exampleCollab (Some ''i-0'') (Some 4) ?w \<noteq> Throws ?w []"
    by (simp_all add: example_defs)
  from split_spec [of ?w "''i-0''" ?it 10 exampleCollab] dat held q
  have split10: "processSplit exampleCollab (Some ''i-0'') (Some 10) ?w
                   = Returns ?w [SyncInventory]"
    by blast
  from split_spec [of ?w "''i-0''" ?it 11 exampleCollab] dat held q
  have split11: "processSplit exampleCollab (Some ''i-0'') (Some 11) ?w
                   = Returns ?w [SyncInventory]"
    by blast
  from dat pre held amt free1 split4 accepted returned q split10 split11 show ?thesis by simp
qed

section \<open>Runs up to the first await\<close>

text \<open>
  The run of a ground handler up to its first \<^verbatim>\<open>await\<close> agrees with its whole run: a call
  that finishes without \<^verbatim>\<open>await\<close> has the outcome of the whole run, and the whole run of
  a call that is suspended starts with the verification it waits for. The call of
  \<^verbatim>\<open>processItemMovement\<close> seen from its caller agrees with the whole run of the request.
\<close>

lemma awaitsVerification_simps [simp]:
  "awaitsVerification (Returns w (verifyLog (Some r) it a b v @ t))"
  "awaitsVerification (Throws w (verifyLog (Some r) it a b v @ t))"
  "awaitsVerification (Throws w (verifyLog (Some r) it a b v))"
  by (simp_all add: awaitsVerification_def verifyLog_def)

lemma drop_start_agrees:
  "(case handleDropGround_start K rules s w of
      Finished out \<Rightarrow> handleDropGround K rules s w = out
    | Awaiting \<Rightarrow> awaitsVerification (handleDropGround K rules s w))"
  unfolding handleDropGround_start_def handleDropGround_def Let_def
  by (simp split: option.split prod.split)

lemma pickup_start_agrees:
  "(case handlePickupGround_start K rules ed s h w of
      Finished out \<Rightarrow> handlePickupGround K rules ed s h w = out
    | Awaiting \<Rightarrow> awaitsVerification (handlePickupGround K rules ed s h w))"
  unfolding handlePickupGround_start_def handlePickupGround_def Let_def
  by (simp split: option.split prod.split)

lemma notAwaited_agrees:
  assumes "case st of Finished out \<Rightarrow> run = out | Awaiting \<Rightarrow> P"
  shows "(case notAwaited pre w st run of
            Completed out \<Rightarrow>
              calls_of (after pre run) = calls_of out \<and> world_of (after pre run) = world_of out
          | Detached w0 t0 r \<Rightarrow> w0 = w \<and> after pre run = after t0 r)"
  using assms by (cases st; cases run) (auto simp: notAwaited_def after_def)

lemma call_agrees:
  "(case processItemMovement_call K rules sel en h w of
      Completed out \<Rightarrow>
        calls_of (processItemMovement K rules sel en h w) = calls_of out
        \<and> world_of (processItemMovement K rules sel en h w) = world_of out
    | Detached w0 t0 run \<Rightarrow>
        w0 = w \<and> processItemMovement K rules sel en h w = after t0 run)"
proof (cases "valid (player w) \<and> hasData (player w) \<and> sel \<noteq> en")
  case False
  then show ?thesis
    by (auto simp: processItemMovement_call_def processItemMovement_def)
next
  case ok: True
  show ?thesis
  proof (cases "findData K en")
    case None
    with ok show ?thesis
      by (simp add: processItemMovement_call_def processItemMovement_def)
  next
    case ed: (Some ed)
    show ?thesis
    proof (cases "findData K sel")
      case None
      with ok ed show ?thesis
        by (simp add: processItemMovement_call_def processItemMovement_def)
    next
      case sd: (Some sd)
      define pre where "pre = (if name sd = TOOLBAR \<and> name ed \<noteq> TOOLBAR
                               then [RemoveAllWeapons] else [])"
      have run: "processItemMovement K rules sel en h w =
         (if name ed = GROUND then after pre (handleDropGround K rules sel w)
          else if name sd = GROUND then
            after pre (handlePickupGround K rules ed (stripCategory en) h w)
          else processItemMovement_owned K rules sd ed sel en pre w)"
        using ok ed sd by (simp add: processItemMovement_def pre_def Let_def)
      have call: "processItemMovement_call K rules sel en h w =
         (if name ed = GROUND then
            notAwaited pre w (handleDropGround_start K rules sel w)
              (handleDropGround K rules sel w)
          else if name sd = GROUND then
            notAwaited pre w (handlePickupGround_start K rules ed (stripCategory en) h w)
              (handlePickupGround K rules ed (stripCategory en) h w)
          else Completed (processItemMovement_owned K rules sd ed sel en pre w))"
        using ok ed sd by (simp add: processItemMovement_call_def pre_def Let_def)
      have d: "case handleDropGround_start K rules sel w of
                 Finished out \<Rightarrow> handleDropGround K rules sel w = out
               | Awaiting \<Rightarrow> awaitsVerification (handleDropGround K rules sel w)"
        by (rule drop_start_agrees)
      have p: "case handlePickupGround_start K rules ed (stripCategory en) h w of
                 Finished out \<Rightarrow> handlePickupGround K rules ed (stripCategory en) h w = out
               | Awaiting \<Rightarrow>
                   awaitsVerification (handlePickupGround K rules ed (stripCategory en) h w)"
        by (rule pickup_start_agrees)
      show ?thesis
        unfolding run call
        using notAwaited_agrees [OF d, where pre = pre and w = w]
          notAwaited_agrees [OF p, where pre = pre and w = w]
        by simp
    qed
  qed
qed

section \<open>Resynchronisation\<close>

lemma drop_returns_synced:
  "\<forall>w' t. handleDropGround K rules s w = Returns w' t \<longrightarrow> SyncInventory \<in> set t"
  unfolding handleDropGround_def Let_def
  by (simp split: option.split prod.split)

lemma pickup_returns_synced:
  "\<forall>w' t. handlePickupGround K rules ed s h w = Returns w' t \<longrightarrow> SyncInventory \<in> set t"
  unfolding handlePickupGround_def Let_def
  by (simp split: option.split prod.split)

lemma pickup_run_returns:
  "emptyCheck ed \<noteq> None \<Longrightarrow> addItem ed \<noteq> None \<Longrightarrow>
     syncedReturn (handlePickupGround K rules ed s h w)"
  unfolding handlePickupGround_def Let_def
  by (auto split: option.split prod.split)

lemma owned_adapters:
  assumes "findData K s = Some d" "name d \<noteq> GROUND"
  shows "emptyCheck d \<noteq> None \<and> getItem d \<noteq> None \<and> removeItem d \<noteq> None
         \<and> addItem d \<noteq> None \<and> dropDataType d \<noteq> None"
  using findData_cases [OF assms(1)] assms(2)
  by (auto simp: DataHelpers_defs dropDataType_def SLOT_TYPE_defs)

lemma drop_run_returns:
  assumes "findData K s = Some sd"
  shows "syncedReturn (handleDropGround K rules s w)"
proof (cases "name sd = GROUND")
  case True
  with assms show ?thesis by (simp add: handleDropGround_def Let_def)
next
  case False
  from owned_adapters [OF assms False] assms False show ?thesis
    unfolding handleDropGround_def Let_def placeOnGround_def
    by (auto split: option.split prod.split)
qed

lemma drop_start_cases:
  assumes "findData K s = Some sd"
  shows "handleDropGround_start K rules s w = Awaiting
       \<or> handleDropGround_start K rules s w = Finished (Returns w [SyncInventory])"
proof (cases "name sd = GROUND")
  case True
  with assms show ?thesis by (simp add: handleDropGround_start_def Let_def)
next
  case False
  from owned_adapters [OF assms False] assms False show ?thesis
    unfolding handleDropGround_start_def Let_def
    by (auto split: option.split)
qed

lemma pickup_start_cases:
  assumes "emptyCheck ed \<noteq> None"
  shows "handlePickupGround_start K rules ed s h w = Awaiting
       \<or> handlePickupGround_start K rules ed s h w = Finished (Returns w [SyncInventory])
       \<or> handlePickupGround_start K rules ed s h w
           = Finished (handlePickupGround K rules ed s h w)"
  using assms unfolding handlePickupGround_start_def Let_def
  by (auto split: option.split)

lemma notAwaited_Completed:
  "notAwaited pre w st run = Completed (Returns w1 t1) \<Longrightarrow>
     \<exists>out. st = Finished out \<and> w1 = world_of out \<and> t1 = pre @ calls_of out"
  by (cases st) (auto simp: notAwaited_def split: outcome.splits)

lemma notAwaited_Detached:
  "notAwaited pre w st run = Detached w0 t0 r \<Longrightarrow>
     st = Awaiting \<and> w0 = w \<and> t0 = pre \<and> r = run"
  by (cases st) (auto simp: notAwaited_def split: outcome.splits)

lemma notAwaited_returns:
  "(\<exists>w' t. notAwaited pre w st run = Completed (Returns w' t))
   \<or> notAwaited pre w st run = Detached w pre run"
  by (cases st) (auto simp: notAwaited_def split: outcome.splits)

lemma commit_returns_synced:
  "\<forall>w' t. commitMove sd ed ic s pre w = Returns w' t \<longrightarrow> SyncInventory \<in> set t"
  unfolding commitMove_def Let_def
  by (simp split: option.split prod.split)

lemma owned_returns_synced:
  "\<forall>w' t. processItemMovement_owned K rules sd ed sel en pre w = Returns w' t \<longrightarrow>
     SyncInventory \<in> set t \<or> HandleSwapOrStack sel en \<in> set t"
  unfolding processItemMovement_owned_def Let_def
  by (simp split: option.split prod.split add: commit_returns_synced)

lemma ground_call_synced:
  assumes call: "notAwaited pre w st run = Completed (Returns w1 t1)"
    and st: "st = Awaiting \<or> st = Finished (Returns w [SyncInventory]) \<or> st = Finished run"
    and run: "syncedReturn run"
  shows "SyncInventory \<in> set t1"
proof -
  from notAwaited_Completed [OF call] obtain out where
    out: "st = Finished out" "t1 = pre @ calls_of out" by blast
  with st have "out = Returns w [SyncInventory] \<or> out = run" by auto
  then show ?thesis
  proof
    assume "out = Returns w [SyncInventory]"
    with out(2) show ?thesis by simp
  next
    assume "out = run"
    with run obtain w' t where "out = Returns w' t" "SyncInventory \<in> set t"
      by (auto simp: syncedReturn_iff)
    with out(2) show ?thesis by simp
  qed
qed

lemma move_call_guard:
  "\<not> (valid (player w) \<and> hasData (player w)) \<Longrightarrow>
     processItemMovement_call K rules sel en h w = Completed (Returns w [])"
  by (simp add: processItemMovement_call_def)

lemma move_call_cases:
  assumes ok: "valid (player w)" "hasData (player w)"
  obtains (same) "processItemMovement_call K rules sel en h w
                    = Completed (Returns w [SyncInventory])"
    | (unknown) "processItemMovement_call K rules sel en h w = Completed (Throws w [])"
    | (drop) sd pre where "findData K sel = Some sd" "pre = [] \<or> pre = [RemoveAllWeapons]"
        "processItemMovement_call K rules sel en h w =
           notAwaited pre w (handleDropGround_start K rules sel w)
             (handleDropGround K rules sel w)"
    | (pickup) ed pre where "findData K en = Some ed" "name ed \<noteq> GROUND"
        "pre = [] \<or> pre = [RemoveAllWeapons]"
        "processItemMovement_call K rules sel en h w =
           notAwaited pre w (handlePickupGround_start K rules ed (stripCategory en) h w)
             (handlePickupGround K rules ed (stripCategory en) h w)"
    | (owned) sd ed pre where
        "processItemMovement_call K rules sel en h w =
           Completed (processItemMovement_owned K rules sd ed sel en pre w)"
proof (cases "sel = en")
  case True
  with ok same show ?thesis by (simp add: processItemMovement_call_def)
next
  case ne: False
  show ?thesis
  proof (cases "findData K en")
    case None
    with ok ne unknown show ?thesis by (simp add: processItemMovement_call_def)
  next
    case ed: (Some ed)
    show ?thesis
    proof (cases "findData K sel")
      case None
      with ok ne ed unknown show ?thesis by (simp add: processItemMovement_call_def)
    next
      case sd: (Some sd)
      define pre where "pre = (if name sd = TOOLBAR \<and> name ed \<noteq> TOOLBAR
                               then [RemoveAllWeapons] else [])"
      have pre: "pre = [] \<or> pre = [RemoveAllWeapons]" by (simp add: pre_def)
      have call: "processItemMovement_call K rules sel en h w =
         (if name ed = GROUND then
            notAwaited pre w (handleDropGround_start K rules sel w)
              (handleDropGround K rules sel w)
          else if name sd = GROUND then
            notAwaited pre w (handlePickupGround_start K rules ed (stripCategory en) h w)
              (handlePickupGround K rules ed (stripCategory en) h w)
          else Completed (processItemMovement_owned K rules sd ed sel en pre w))"
        using ok ne ed sd by (simp add: processItemMovement_call_def pre_def Let_def)
      show ?thesis
      proof (cases "name ed = GROUND")
        case True
        with call have "processItemMovement_call K rules sel en h w =
            notAwaited pre w (handleDropGround_start K rules sel w)
              (handleDropGround K rules sel w)" by simp
        with sd pre show ?thesis by (rule drop)
      next
        case ned: False
        show ?thesis
        proof (cases "name sd = GROUND")
          case True
          with call ned have "processItemMovement_call K rules sel en h w =
              notAwaited pre w (handlePickupGround_start K rules ed (stripCategory en) h w)
                (handlePickupGround K rules ed (stripCategory en) h w)" by simp
          with ed ned pre show ?thesis by (rule pickup)
        next
          case False
          with call ned have "processItemMovement_call K rules sel en h w =
              Completed (processItemMovement_owned K rules sd ed sel en pre w)" by simp
          then show ?thesis by (rule owned)
        qed
      qed
    qed
  qed
qed

lemma move_call_completed:
  assumes ok: "valid (player w)" "hasData (player w)"
    and call: "processItemMovement_call K rules sel en h w = Completed (Returns w1 t1)"
  shows "SyncInventory \<in> set t1 \<or> HandleSwapOrStack sel en \<in> set t1"
  using ok
proof (cases rule: move_call_cases [where K = K and rules = rules and sel = sel
                                     and en = en and h = h])
  case same
  with call show ?thesis by auto
next
  case unknown
  with call show ?thesis by auto
next
  case (drop sd pre)
  from call drop(3) have "notAwaited pre w (handleDropGround_start K rules sel w)
             (handleDropGround K rules sel w) = Completed (Returns w1 t1)" by simp
  from ground_call_synced [OF this _ drop_run_returns [OF drop(1)]]
    drop_start_cases [OF drop(1), where rules = rules and w = w]
  show ?thesis by blast
next
  case (pickup ed pre)
  from owned_adapters [OF pickup(1,2)]
  have ad: "emptyCheck ed \<noteq> None" "addItem ed \<noteq> None" by simp_all
  from call pickup(4) have "notAwaited pre w
             (handlePickupGround_start K rules ed (stripCategory en) h w)
             (handlePickupGround K rules ed (stripCategory en) h w)
           = Completed (Returns w1 t1)" by simp
  from ground_call_synced [OF this _ pickup_run_returns [OF ad]]
    pickup_start_cases [OF ad(1), where K = K and rules = rules and s = "stripCategory en"
                                   and h = h and w = w]
  show ?thesis by blast
next
  case (owned sd ed pre)
  with call owned_returns_synced [of K rules sd ed sel en pre w] show ?thesis by simp
qed

lemma move_call_detached:
  assumes call: "processItemMovement_call K rules sel en h w = Detached w0 t0 run"
  shows "w0 = w \<and> SyncInventory \<notin> set t0 \<and> syncedReturn run"
proof -
  from call have ok: "valid (player w)" "hasData (player w)"
    by (auto simp: processItemMovement_call_def split: if_splits)
  from ok show ?thesis
  proof (cases rule: move_call_cases [where K = K and rules = rules and sel = sel
                                       and en = en and h = h])
    case same
    with call show ?thesis by simp
  next
    case unknown
    with call show ?thesis by simp
  next
    case (drop sd pre)
    from call drop(3) have "notAwaited pre w (handleDropGround_start K rules sel w)
               (handleDropGround K rules sel w) = Detached w0 t0 run" by simp
    from notAwaited_Detached [OF this] drop(2)
      drop_run_returns [OF drop(1), where rules = rules and w = w]
    show ?thesis by auto
  next
    case (pickup ed pre)
    from owned_adapters [OF pickup(1,2)]
    have ad: "emptyCheck ed \<noteq> None" "addItem ed \<noteq> None" by simp_all
    from call pickup(4) have "notAwaited pre w
               (handlePickupGround_start K rules ed (stripCategory en) h w)
               (handlePickupGround K rules ed (stripCategory en) h w) = Detached w0 t0 run"
      by simp
    from notAwaited_Detached [OF this] pickup(3)
      pickup_run_returns [OF ad, where K = K and rules = rules and s = "stripCategory en"
                                 and h = h and w = w]
    show ?thesis by auto
  next
    case (owned sd ed pre)
    with call show ?thesis by simp
  qed
qed

lemma inventory_adapters:
  "emptyCheck (inventoryData K) \<noteq> None" "addItem (inventoryData K) \<noteq> None"
  by (simp_all add: inventoryData_def)

lemma process_pickup_cases:
  obtains (nodata) "\<not> hasData (player w)"
      "handleProcessPickup K rules h w = Completed (Throws w [])"
    | (full) "hasData (player w)"
      "handleProcessPickup K rules h w = Completed (Returns w [SyncInventory])"
    | (handler) openSlot where "hasData (player w)"
      "handleProcessPickup K rules h w =
         notAwaited [] w (handlePickupGround_start K rules (inventoryData K) (Some openSlot) h w)
           (handlePickupGround K rules (inventoryData K) (Some openSlot) h w)"
proof (cases "hasData (player w)")
  case False
  then show ?thesis by (intro nodata) (simp_all add: handleProcessPickup_def)
next
  case dat: True
  show ?thesis
  proof (cases "getFreeInventorySlot K (player w)")
    case None
    with dat show ?thesis by (intro full) (simp_all add: handleProcessPickup_def)
  next
    case (Some openSlot)
    have "handleProcessPickup K rules h w =
         notAwaited [] w (handlePickupGround_start K rules (inventoryData K) (Some openSlot) h w)
           (handlePickupGround K rules (inventoryData K) (Some openSlot) h w)"
      using dat Some unfolding handleProcessPickup_def find_inventory_abbrv by simp
    with dat show ?thesis by (rule handler)
  qed
qed

lemma process_pickup_completed:
  assumes call: "handleProcessPickup K rules h w = Completed (Returns w1 t1)"
  shows "SyncInventory \<in> set t1"
proof (cases rule: process_pickup_cases [where w = w and K = K and rules = rules and h = h])
  case nodata
  with call show ?thesis by simp
next
  case full
  with call show ?thesis by auto
next
  case (handler openSlot)
  note ad = inventory_adapters [of K]
  from call handler(2) have "notAwaited [] w
         (handlePickupGround_start K rules (inventoryData K) (Some openSlot) h w)
         (handlePickupGround K rules (inventoryData K) (Some openSlot) h w)
       = Completed (Returns w1 t1)" by simp
  from ground_call_synced [OF this _ pickup_run_returns [OF ad]]
    pickup_start_cases [OF ad(1), where K = K and rules = rules and s = "Some openSlot"
                                   and h = h and w = w]
  show ?thesis by blast
qed

lemma process_pickup_detached:
  assumes call: "handleProcessPickup K rules h w = Detached w0 t0 run"
  shows "w0 = w \<and> t0 = [] \<and> syncedReturn run"
proof (cases rule: process_pickup_cases [where w = w and K = K and rules = rules and h = h])
  case nodata
  with call show ?thesis by simp
next
  case full
  with call show ?thesis by simp
next
  case (handler openSlot)
  note ad = inventory_adapters [of K]
  from call handler(2) have "notAwaited [] w
         (handlePickupGround_start K rules (inventoryData K) (Some openSlot) h w)
         (handlePickupGround K rules (inventoryData K) (Some openSlot) h w)
       = Detached w0 t0 run" by simp
  from notAwaited_Detached [OF this]
    pickup_run_returns [OF ad, where K = K and rules = rules and s = "Some openSlot"
                               and h = h and w = w]
  show ?thesis by auto
qed

lemma process_pickup_returns:
  assumes dat: "hasData (player w)"
  shows "(\<exists>w' t. handleProcessPickup K rules h w = Completed (Returns w' t))
       \<or> (\<exists>r. handleProcessPickup K rules h w = Detached w [] r)"
proof (cases rule: process_pickup_cases [where w = w and K = K and rules = rules and h = h])
  case nodata
  with dat show ?thesis by simp
next
  case full
  then show ?thesis by simp
next
  case (handler openSlot)
  with notAwaited_returns [of "[]" w
      "handlePickupGround_start K rules (inventoryData K) (Some openSlot) h w"
      "handlePickupGround K rules (inventoryData K) (Some openSlot) h w"]
  show ?thesis by auto
qed

lemma split_returns_synced:
  "\<forall>w' t. processSplit K s a w = Returns w' t \<longrightarrow> SyncInventory \<in> set t"
  unfolding processSplit_def Let_def
  by (simp split: option.split)

lemma split_returns:
  "hasData (player w) \<Longrightarrow> \<exists>w' t. processSplit K (Some s) a w = Returns w' t"
  by (auto simp: processSplit_def Let_def split: option.splits dest: holdsSlot_at)

lemma use_returns_synced:
  "\<forall>w' t. processUse K s w = Returns w' t \<longrightarrow>
     SyncInventory \<in> set t
     \<or> (w' = w \<and>
        (\<exists>slotType c it.
           getSlotType K s = Some slotType \<and> data_of slotType (player w) = Some c
           \<and> readItem c (stripCategory s) = Some it \<and> equipment it = None
           \<and> isFlagEnabled (behavior it) CONSUMABLE
           \<and> isFlagEnabled (behavior it) SKIP_CONSUMABLE))"
  unfolding processUse_def Let_def
  by (simp split: option.split prod.split)

lemma use_never_throws:
  assumes "hasData (player w)" "getSlotType K s = Some slotType" "slotType \<noteq> GROUND"
  shows "\<forall>w' t. processUse K s w \<noteq> Throws w' t"
proof -
  from assms obtain c where c: "data_of slotType (player w) = Some c"
    by (cases slotType) (simp_all add: data_of_def)
  show ?thesis
    using assms(2) c unfolding processUse_def Let_def
    by (simp split: option.split prod.split)
qed

lemma use_returns:
  assumes "hasData (player w)" "getSlotType K s = Some slotType" "slotType \<noteq> GROUND"
  shows "\<exists>w' t. processUse K s w = Returns w' t"
  using use_never_throws [OF assms] by (cases "processUse K s w") auto

text \<open>
  Claim C3, as amended. A move for a player that is not valid or has no data returns at
  the guard without any call. Otherwise a move that has returned to its caller has
  resynchronised or has handed the two slots to \<^verbatim>\<open>handleSwapOrStack\<close>, unless a ground
  handler that it did not wait for is suspended at its \<^verbatim>\<open>await verifyRules\<close>: then the
  move has returned without resynchronising and with the world unchanged, and the
  handler's run ends in a return after a resynchronisation. A use that returns has
  resynchronised, unless the slot holds an item without equipment kind that is consumable
  and flagged skip-consumption; in that case the world is unchanged; and a use returns for
  a player with data and a slot of a container of the player. A split that returns
  has resynchronised, and for a player with data and a slot identifier it returns. A pickup
  for a player with data returns; when it has returned with nothing left to run it has
  resynchronised, and otherwise it has returned without any call, the world unchanged,
  and the run of the handler it did not wait for ends in a return after a
  resynchronisation.
\<close>

theorem entry_points_resynchronise:
  "(\<not> (valid (player w) \<and> hasData (player w)) \<longrightarrow>
      processItemMovement_call K rules selectedSlot endSlot h w = Completed (Returns w []))
   \<and> (valid (player w) \<and> hasData (player w)
      \<and> processItemMovement_call K rules selectedSlot endSlot h w = Completed (Returns w1 t1) \<longrightarrow>
      SyncInventory \<in> set t1 \<or> HandleSwapOrStack selectedSlot endSlot \<in> set t1)
   \<and> (processItemMovement_call K rules selectedSlot endSlot h w = Detached w0 t0 run0 \<longrightarrow>
      w0 = w \<and> SyncInventory \<notin> set t0
      \<and> (\<exists>w' t. run0 = Returns w' t \<and> SyncInventory \<in> set t))
   \<and> (processUse K usedSlot w = Returns w2 t2 \<longrightarrow>
      SyncInventory \<in> set t2
      \<or> (w2 = w \<and>
         (\<exists>slotType c it.
            getSlotType K usedSlot = Some slotType \<and> data_of slotType (player w) = Some c
            \<and> readItem c (stripCategory usedSlot) = Some it \<and> equipment it = None
            \<and> isFlagEnabled (behavior it) CONSUMABLE
            \<and> isFlagEnabled (behavior it) SKIP_CONSUMABLE)))
   \<and> (hasData (player w) \<and> getSlotType K usedSlot = Some usedType \<and> usedType \<noteq> GROUND \<longrightarrow>
      (\<exists>w' t. processUse K usedSlot w = Returns w' t))
   \<and> (processSplit K splitSlot amount w = Returns w3 t3 \<longrightarrow> SyncInventory \<in> set t3)
   \<and> (hasData (player w) \<longrightarrow>
      (\<exists>w' t. processSplit K (Some namedSlot) amount w = Returns w' t))
   \<and> (handleProcessPickup K rules h w = Completed (Returns w4 t4) \<longrightarrow> SyncInventory \<in> set t4)
   \<and> (handleProcessPickup K rules h w = Detached w5 t5 run5 \<longrightarrow>
      w5 = w \<and> t5 = [] \<and> (\<exists>w' t. run5 = Returns w' t \<and> SyncInventory \<in> set t))
   \<and> (hasData (player w) \<longrightarrow>
      (\<exists>w' t. handleProcessPickup K rules h w = Completed (Returns w' t))
      \<or> (\<exists>r. handleProcessPickup K rules h w = Detached w [] r))"
proof (intro conjI impI)
  assume "\<not> (valid (player w) \<and> hasData (player w))"
  then show "processItemMovement_call K rules selectedSlot endSlot h w = Completed (Returns w [])"
    by (rule move_call_guard)
next
  assume "valid (player w) \<and> hasData (player w)
      \<and> processItemMovement_call K rules selectedSlot endSlot h w = Completed (Returns w1 t1)"
  then show "SyncInventory \<in> set t1 \<or> HandleSwapOrStack selectedSlot endSlot \<in> set t1"
    using move_call_completed by blast
next
  assume "processItemMovement_call K rules selectedSlot endSlot h w = Detached w0 t0 run0"
  from move_call_detached [OF this]
  show "w0 = w" "SyncInventory \<notin> set t0" "\<exists>w' t. run0 = Returns w' t \<and> SyncInventory \<in> set t"
    by (simp_all add: syncedReturn_iff)
next
  assume "processUse K usedSlot w = Returns w2 t2"
  then show "SyncInventory \<in> set t2
      \<or> (w2 = w \<and>
         (\<exists>slotType c it.
            getSlotType K usedSlot = Some slotType \<and> data_of slotType (player w) = Some c
            \<and> readItem c (stripCategory usedSlot) = Some it \<and> equipment it = None
            \<and> isFlagEnabled (behavior it) CONSUMABLE
            \<and> isFlagEnabled (behavior it) SKIP_CONSUMABLE))"
    using use_returns_synced [of K usedSlot w] by blast
next
  assume "hasData (player w) \<and> getSlotType K usedSlot = Some usedType \<and> usedType \<noteq> GROUND"
  then show "\<exists>w' t. processUse K usedSlot w = Returns w' t"
    using use_returns by blast
next
  assume "processSplit K splitSlot amount w = Returns w3 t3"
  then show "SyncInventory \<in> set t3" using split_returns_synced by blast
next
  assume "hasData (player w)"
  then show "\<exists>w' t. processSplit K (Some namedSlot) amount w = Returns w' t"
    by (rule split_returns)
next
  assume "handleProcessPickup K rules h w = Completed (Returns w4 t4)"
  then show "SyncInventory \<in> set t4" by (rule process_pickup_completed)
next
  assume "handleProcessPickup K rules h w = Detached w5 t5 run5"
  from process_pickup_detached [OF this]
  show "w5 = w" "t5 = []" "\<exists>w' t. run5 = Returns w' t \<and> SyncInventory \<in> set t"
    by (simp_all add: syncedReturn_iff)
next
  assume "hasData (player w)"
  then show "(\<exists>w' t. handleProcessPickup K rules h w = Completed (Returns w' t))
      \<or> (\<exists>r. handleProcessPickup K rules h w = Detached w [] r)"
    by (rule process_pickup_returns)
qed

text \<open>
  The theorem for the world with two apples in \<^verbatim>\<open>i-0\<close> and a hat on the ground at the
  player's feet: a move for the player made invalid; for the valid player a move of the
  apples to \<^verbatim>\<open>i-1\<close> and a drop of them, a use and a split of the apples, a pickup of an
  unknown token and a pickup of the hat.
\<close>

theorem entry_points_resynchronise_witness:
  "\<not> (valid (player (appleWorld\<lparr>player := (player appleWorld)\<lparr>valid := False\<rparr>\<rparr>))
       \<and> hasData (player (appleWorld\<lparr>player := (player appleWorld)\<lparr>valid := False\<rparr>\<rparr>)))
   \<and> processItemMovement_call exampleCollab ITEM_RULES ''i-0'' ''i-1'' None
        (appleWorld\<lparr>player := (player appleWorld)\<lparr>valid := False\<rparr>\<rparr>)
      = Completed (Returns (appleWorld\<lparr>player := (player appleWorld)\<lparr>valid := False\<rparr>\<rparr>) [])
   \<and> valid (player appleWorld) \<and> hasData (player appleWorld)
   \<and> (\<exists>w1 t1. processItemMovement_call exampleCollab ITEM_RULES ''i-0'' ''i-1'' None appleWorld
                 = Completed (Returns w1 t1)
              \<and> (SyncInventory \<in> set t1 \<or> HandleSwapOrStack ''i-0'' ''i-1'' \<in> set t1))
   \<and> (\<exists>t0 run0. processItemMovement_call exampleCollab ITEM_RULES ''i-0'' ''g-0'' None appleWorld
                   = Detached appleWorld t0 run0
                \<and> SyncInventory \<notin> set t0
                \<and> (\<exists>w' t. run0 = Returns w' t \<and> SyncInventory \<in> set t))
   \<and> (\<exists>w2 t2. processUse exampleCollab ''i-0'' appleWorld = Returns w2 t2
              \<and> SyncInventory \<in> set t2)
   \<and> getSlotType exampleCollab ''i-0'' = Some INVENTORY
   \<and> (\<exists>w3 t3. processSplit exampleCollab (Some ''i-0'') (Some 1) appleWorld = Returns w3 t3
              \<and> SyncInventory \<in> set t3)
   \<and> (\<exists>w4 t4. handleProcessPickup exampleCollab ITEM_RULES None appleWorld
                 = Completed (Returns w4 t4)
              \<and> SyncInventory \<in> set t4)
   \<and> (\<exists>run5. handleProcessPickup exampleCollab ITEM_RULES (Some ''token'') appleWorld
                 = Detached appleWorld [] run5
             \<and> (\<exists>w' t. run5 = Returns w' t \<and> SyncInventory \<in> set t))"
proof -
  let ?v = "appleWorld\<lparr>player := (player appleWorld)\<lparr>valid := False\<rparr>\<rparr>"
  note T = entry_points_resynchronise [where K = exampleCollab and rules = ITEM_RULES]
  have guard: "\<not> (valid (player ?v) \<and> hasData (player ?v))" by simp
  have ok: "valid (player appleWorld)" "hasData (player appleWorld)"
    by (simp_all add: appleWorld_def examplePlayer_def)
  have slot_type: "getSlotType exampleCollab ''i-0'' = Some INVENTORY"
    by (simp add: example_defs)
  have c1: "processItemMovement_call exampleCollab ITEM_RULES ''i-0'' ''i-1'' None ?v
            = Completed (Returns ?v [])"
    using T [where w = ?v and selectedSlot = "''i-0''" and endSlot = "''i-1''" and h = None,
        THEN conjunct1] guard by blast
  have "\<exists>w1 t1. processItemMovement_call exampleCollab ITEM_RULES ''i-0'' ''i-1'' None appleWorld
                 = Completed (Returns w1 t1)"
    by (simp add: eval_defs example_defs appleWorld_def upt_rec)
  then obtain w1 t1 where m: "processItemMovement_call exampleCollab ITEM_RULES ''i-0'' ''i-1''
      None appleWorld = Completed (Returns w1 t1)" by blast
  have c2: "SyncInventory \<in> set t1 \<or> HandleSwapOrStack ''i-0'' ''i-1'' \<in> set t1"
    using T [where w = appleWorld and selectedSlot = "''i-0''" and endSlot = "''i-1''" and h = None
        and ?w1.0 = w1 and ?t1.0 = t1,
        THEN conjunct2, THEN conjunct1] ok m by blast
  have "\<exists>t0 run0. processItemMovement_call exampleCollab ITEM_RULES ''i-0'' ''g-0'' None
                     appleWorld = Detached appleWorld t0 run0"
    by (simp add: eval_defs example_defs appleWorld_def upt_rec)
  then obtain t0 run0 where d: "processItemMovement_call exampleCollab ITEM_RULES ''i-0''
      ''g-0'' None appleWorld = Detached appleWorld t0 run0" by blast
  have c3: "SyncInventory \<notin> set t0 \<and> (\<exists>w' t. run0 = Returns w' t \<and> SyncInventory \<in> set t)"
    using T [where w = appleWorld and selectedSlot = "''i-0''" and endSlot = "''g-0''" and h = None
        and ?w0.0 = appleWorld and ?t0.0 = t0 and ?run0.0 = run0,
        THEN conjunct2, THEN conjunct2, THEN conjunct1] d
    by blast
  have "\<exists>w2 t2. processUse exampleCollab ''i-0'' appleWorld = Returns w2 t2"
    using T [where w = appleWorld and usedSlot = "''i-0''" and usedType = INVENTORY,
        THEN conjunct2, THEN conjunct2, THEN conjunct2, THEN conjunct2, THEN conjunct1]
      ok slot_type by simp
  then obtain w2 t2 where u: "processUse exampleCollab ''i-0'' appleWorld = Returns w2 t2"
    by blast
  have "w2 \<noteq> appleWorld"
    using u by (auto simp add: eval_defs example_defs appleWorld_def upt_rec)
  with u have c4: "SyncInventory \<in> set t2"
    using T [where w = appleWorld and usedSlot = "''i-0''" and ?w2.0 = w2 and ?t2.0 = t2,
        THEN conjunct2, THEN conjunct2, THEN conjunct2, THEN conjunct1]
    by blast
  have "\<exists>w3 t3. processSplit exampleCollab (Some ''i-0'') (Some 1) appleWorld
                 = Returns w3 t3"
    using T [where w = appleWorld and namedSlot = "''i-0''" and amount = "Some 1",
        THEN conjunct2, THEN conjunct2, THEN conjunct2, THEN conjunct2, THEN conjunct2,
        THEN conjunct2, THEN conjunct1]
      ok by blast
  then obtain w3 t3 where sp: "processSplit exampleCollab (Some ''i-0'') (Some 1) appleWorld
      = Returns w3 t3" by blast
  have c5: "SyncInventory \<in> set t3"
    using T [where w = appleWorld and splitSlot = "Some ''i-0''" and amount = "Some 1" and ?w3.0 = w3 and ?t3.0 = t3,
        THEN conjunct2, THEN conjunct2, THEN conjunct2, THEN conjunct2, THEN conjunct2,
        THEN conjunct1] sp by blast
  have "\<exists>w4 t4. handleProcessPickup exampleCollab ITEM_RULES None appleWorld
                  = Completed (Returns w4 t4)"
    by (simp add: eval_defs example_defs appleWorld_def upt_rec)
  then obtain w4 t4 where pk: "handleProcessPickup exampleCollab ITEM_RULES None appleWorld
      = Completed (Returns w4 t4)" by blast
  have c6: "SyncInventory \<in> set t4"
    using T [where w = appleWorld and h = None and ?w4.0 = w4 and ?t4.0 = t4,
        THEN conjunct2, THEN conjunct2, THEN conjunct2, THEN conjunct2, THEN conjunct2,
        THEN conjunct2, THEN conjunct2, THEN conjunct1]
      pk by blast
  have "\<exists>run5. handleProcessPickup exampleCollab ITEM_RULES (Some ''token'') appleWorld
                  = Detached appleWorld [] run5"
    by (simp add: eval_defs example_defs appleWorld_def upt_rec)
  then obtain run5 where pd: "handleProcessPickup exampleCollab ITEM_RULES (Some ''token'')
      appleWorld = Detached appleWorld [] run5" by blast
  have c7: "\<exists>w' t. run5 = Returns w' t \<and> SyncInventory \<in> set t"
    using T [where w = appleWorld and h = "Some ''token''" and ?w5.0 = appleWorld
        and ?t5.0 = "[]" and ?run5.0 = run5,
        THEN conjunct2, THEN conjunct2, THEN conjunct2, THEN conjunct2, THEN conjunct2,
        THEN conjunct2, THEN conjunct2, THEN conjunct2, THEN conjunct1]
      pd by blast
  from guard c1 ok m c2 d c3 u c4 slot_type sp c5 pk c6 pd c7 show ?thesis by blast
qed

text \<open>
  Claim C3 as stated fails. A move for a player that is not valid returns at the guard
  without any call. A drop requested by a move and a pickup have returned to their caller
  without any call when the handler they did not wait for is suspended at its
  \<^verbatim>\<open>await verifyRules\<close>. The use of a consumable flagged skip-consumption returns without
  resynchronising. A split for a player without data throws without resynchronising.
\<close>

theorem entry_points_without_sync:
  "processItemMovement_call exampleCollab ITEM_RULES ''i-0'' ''t-0'' None
      (appleWorld\<lparr>player := (player appleWorld)\<lparr>valid := False\<rparr>\<rparr>)
     = Completed (Returns (appleWorld\<lparr>player := (player appleWorld)\<lparr>valid := False\<rparr>\<rparr>) [])
   \<and> processItemMovement_call exampleCollab ITEM_RULES ''i-0'' ''g-0'' None appleWorld
     = Detached appleWorld []
         (handleDropGround exampleCollab ITEM_RULES ''i-0'' appleWorld)
   \<and> handleProcessPickup exampleCollab ITEM_RULES (Some ''token'') appleWorld
     = Detached appleWorld []
         (handlePickupGround exampleCollab ITEM_RULES (inventoryData exampleCollab) (Some 1)
            (Some ''token'') appleWorld)
   \<and> processUse exampleCollab ''i-0''
       \<lparr>player = examplePlayer
                   [Some (exampleItem ''badge'' 0 1 {CONSUMABLE, SKIP_CONSUMABLE})] [] [],
        GROUND_ITEMS = []\<rparr>
     = Returns
       \<lparr>player = examplePlayer
                   [Some (exampleItem ''badge'' 0 1 {CONSUMABLE, SKIP_CONSUMABLE})] [] [],
        GROUND_ITEMS = []\<rparr> []
   \<and> processSplit exampleCollab (Some ''i-0'') (Some 1)
       (appleWorld\<lparr>player := (player appleWorld)\<lparr>hasData := False\<rparr>\<rparr>)
     = Throws (appleWorld\<lparr>player := (player appleWorld)\<lparr>hasData := False\<rparr>\<rparr>) []"
  by (simp add: eval_defs example_defs appleWorld_def upt_rec)

end
